theory Spec2Isabelle
  imports Main "HOL-Library.Word"
begin

section \<open>Values handled by the notebook\<close>

text \<open>
  The notebook \<open>Saving and Loading Models\<close> stores the parameters of a fully connected
  network in a file and reads them back. A parameter is a tensor of 32-bit floats; the
  model keeps the bit pattern of every element, so that equality of two tensors is
  bit-for-bit equality.
\<close>

type_synonym float32 = "32 word"

record tensor =
  shape :: "int list"
  data :: "float32 list"

text \<open>
  Python values that reach \<open>torch.save\<close> and \<open>torch.load\<close> in the notebook: integers,
  lists of integers, tensors, and dictionaries with string keys (a state dict is a
  dictionary whose values are tensors). A dictionary is the list of its items in insertion
  order; no key occurs twice in it, and a lookup takes the item with the key.
\<close>

datatype pyval =
    PInt int
  | PList "int list"
  | PTensor tensor
  | PDict "(string \<times> pyval) list"

text \<open>
  The exceptions of the model. \<open>RuntimeError\<close> is the one \<open>load_state_dict\<close> raises; it
  carries what the message lists: the missing keys, the unexpected keys, and for every
  size mismatch the key, the shape in the checkpoint and the shape in the current model.
  \<open>TypeError\<close> stands for the exception Python raises when a value of the wrong kind is
  used; \<open>InvalidSize\<close> for a layer width that is not positive.
\<close>

datatype error =
    FileNotFoundError string
  | KeyError string
  | TypeError
  | IndexError
  | InvalidSize int
  | RuntimeError (missing_keys: "string list") (unexpected_keys: "string list")
      (size_mismatch: "(string \<times> int list \<times> int list) list")

section \<open>The network\<close>

text \<open>
  The random values drawn by the framework's initialisers during one call, in the order
  in which they are drawn.
\<close>

type_synonym rng = "nat \<Rightarrow> float32"

definition numel :: "int list \<Rightarrow> nat" where
  "numel s = nat (prod_list s)"

definition init_tensor :: "int list \<Rightarrow> rng \<Rightarrow> tensor \<times> rng" where
  "init_tensor s g = (\<lparr>shape = s, data = map g [0..<numel s]\<rparr>, \<lambda>i. g (i + numel s))"

record linear =
  in_features :: int
  out_features :: int
  weight :: tensor
  bias :: tensor

text \<open>
  \<open>nn.Linear(in_features, out_features)\<close>: a weight of shape \<open>[out_features, in_features]\<close>
  and a bias of shape \<open>[out_features]\<close>, as the notebook prints them
  (\<open>Linear(in_features=784, out_features=512, bias=True)\<close> has the weight
  \<open>torch.Size([512, 784])\<close> and the bias \<open>torch.Size([512])\<close>), both randomly
  initialised. The spec's widths are positive integers; what the framework does with
  another width depends on its version, and the model raises.
\<close>

definition Linear :: "int \<Rightarrow> int \<Rightarrow> rng \<Rightarrow> error + linear \<times> rng" where
  "Linear n_in n_out g =
     (if n_in \<le> 0 then Inl (InvalidSize n_in)
      else if n_out \<le> 0 then Inl (InvalidSize n_out)
      else (case init_tensor [n_out, n_in] g of (w, g1) \<Rightarrow>
             (case init_tensor [n_out] g1 of (b, g2) \<Rightarrow>
               Inr (\<lparr>in_features = n_in, out_features = n_out, weight = w, bias = b\<rparr>, g2))))"

record network =
  hidden_layers :: "linear list"
  "output" :: linear

fun layer_chain :: "int \<Rightarrow> int list \<Rightarrow> rng \<Rightarrow> error + linear list \<times> rng" where
  "layer_chain prev [] g = Inr ([], g)"
| "layer_chain prev (h # hs) g =
     (case Linear prev h g of
        Inl e \<Rightarrow> Inl e
      | Inr (l, g1) \<Rightarrow>
          (case layer_chain h hs g1 of
             Inl e \<Rightarrow> Inl e
           | Inr (ls, g2) \<Rightarrow> Inr (l # ls, g2)))"

text \<open>
  Modelled from the spec: \<open>fc_model.Network(input_size, output_size, hidden_layers)\<close> is
  defined in the module \<open>fc_model\<close>, which is not among the sources; the notebook only
  calls it and prints its instances. Section 3 of the spec gives hidden layer \<open>i\<close> a weight
  of shape \<open>(hidden_layers[i], previous_width)\<close> with \<open>previous_width = input_size\<close> for
  \<open>i = 0\<close>. The module trees printed by the notebook and the shapes listed in its recorded
  \<open>RuntimeError\<close> fix the rest: the previous width of a later hidden layer is the width of
  the hidden layer before it, and the output layer is
  \<open>Linear(in_features = last hidden width, out_features = output_size)\<close>. There is always a
  hidden layer \<open>0\<close>: the first layer is built from \<open>hidden_layers[0]\<close>, which raises
  \<open>IndexError\<close> on an empty list. The dropout module has no parameters and is left out.
\<close>

definition Network :: "int \<Rightarrow> int \<Rightarrow> int list \<Rightarrow> rng \<Rightarrow> error + network" where
  "Network input_size output_size hidden g =
     (case hidden of
        [] \<Rightarrow> Inl IndexError
      | _ # _ \<Rightarrow>
          (case layer_chain input_size hidden g of
             Inl e \<Rightarrow> Inl e
           | Inr (ls, g1) \<Rightarrow>
               (case Linear (last hidden) output_size g1 of
                  Inl e \<Rightarrow> Inl e
                | Inr (out, g2) \<Rightarrow> Inr \<lparr>hidden_layers = ls, output = out\<rparr>)))"

section \<open>State dicts\<close>

text \<open>Python's \<open>str(i)\<close> for an index \<open>i\<close>: the name of the \<open>i\<close>-th module of a \<open>ModuleList\<close>.\<close>

definition digit :: "nat \<Rightarrow> char" where
  "digit d = ''0123456789'' ! d"

fun str :: "nat \<Rightarrow> string" where
  "str n = (if n < 10 then [digit n] else str (n div 10) @ [digit (n mod 10)])"

declare str.simps [simp del]

definition hidden_prefix :: "nat \<Rightarrow> string" where
  "hidden_prefix i = ''hidden_layers.'' @ str i @ ''.''"

text \<open>
  \<open>model.state_dict()\<close>: the parameters under their identifiers, in the order the notebook
  prints (\<open>hidden_layers.0.weight\<close>, \<open>hidden_layers.0.bias\<close>, ..., \<open>output.weight\<close>,
  \<open>output.bias\<close>).
\<close>

definition linear_state :: "string \<Rightarrow> linear \<Rightarrow> (string \<times> tensor) list" where
  "linear_state prefix l = [(prefix @ ''weight'', weight l), (prefix @ ''bias'', bias l)]"

fun layers_state :: "nat \<Rightarrow> linear list \<Rightarrow> (string \<times> tensor) list" where
  "layers_state i [] = []"
| "layers_state i (l # ls) = linear_state (hidden_prefix i) l @ layers_state (Suc i) ls"

definition state_dict :: "network \<Rightarrow> (string \<times> tensor) list" where
  "state_dict m = layers_state 0 (hidden_layers m) @ linear_state ''output.'' (output m)"

text \<open>
  One parameter slot of \<open>load_state_dict\<close>: a key that is absent is recorded as missing; a
  stored tensor of another shape is recorded as a size mismatch and the slot is left as it
  is; otherwise the stored values are copied into the slot (\<open>param.copy_(input_param)\<close>).
  The result is the slot, the missing keys and the size mismatches.
\<close>

definition load_param ::
  "(string \<times> tensor) list \<Rightarrow> string \<Rightarrow> tensor
     \<Rightarrow> tensor \<times> string list \<times> (string \<times> int list \<times> int list) list" where
  "load_param sd key param =
     (case map_of sd key of
        None \<Rightarrow> (param, [key], [])
      | Some input_param \<Rightarrow>
          if shape input_param \<noteq> shape param
          then (param, [], [(key, shape input_param, shape param)])
          else (param\<lparr>data := data input_param\<rparr>, [], []))"

definition load_linear ::
  "(string \<times> tensor) list \<Rightarrow> string \<Rightarrow> linear
     \<Rightarrow> linear \<times> string list \<times> (string \<times> int list \<times> int list) list" where
  "load_linear sd prefix l =
     (case load_param sd (prefix @ ''weight'') (weight l) of (w, mw, ew) \<Rightarrow>
       (case load_param sd (prefix @ ''bias'') (bias l) of (b, mb, eb) \<Rightarrow>
         (l\<lparr>weight := w, bias := b\<rparr>, mw @ mb, ew @ eb)))"

fun load_layers ::
  "(string \<times> tensor) list \<Rightarrow> nat \<Rightarrow> linear list
     \<Rightarrow> linear list \<times> string list \<times> (string \<times> int list \<times> int list) list" where
  "load_layers sd i [] = ([], [], [])"
| "load_layers sd i (l # ls) =
     (case load_linear sd (hidden_prefix i) l of (l', m1, e1) \<Rightarrow>
       (case load_layers sd (Suc i) ls of (ls', m2, e2) \<Rightarrow>
         (l' # ls', m1 @ m2, e1 @ e2)))"

text \<open>
  \<open>model.load_state_dict(state_dict)\<close> of the framework, with its default \<open>strict=True\<close>.
  The framework's code is not part of the repository; the model follows its documented
  contract and what the notebook records of it. Every module loads its own parameters,
  the hidden layers in order and then the output layer; the errors are collected while
  the parameters are loaded and raised once at the end (the recorded traceback shows
  \<open>if len(error_msgs) > 0: raise RuntimeError(...)\<close> as the last step), so a slot whose key
  and shape match has already been overwritten when the error is raised. In strict mode a
  key of the state dict that names no parameter of the model is an unexpected key. The
  model is changed in place: the function returns the model after the call together with
  the exception, if one is raised.
\<close>

definition load_from_state_dict ::
  "network \<Rightarrow> (string \<times> tensor) list \<Rightarrow> network \<times> error option" where
  "load_from_state_dict m sd =
     (case load_layers sd 0 (hidden_layers m) of (hs, m1, e1) \<Rightarrow>
       (case load_linear sd ''output.'' (output m) of (out, m2, e2) \<Rightarrow>
         (let unexpected = filter (\<lambda>k. k \<notin> set (map fst (state_dict m))) (map fst sd);
              m' = m\<lparr>hidden_layers := hs, output := out\<rparr>
          in if m1 @ m2 = [] \<and> unexpected = [] \<and> e1 @ e2 = []
             then (m', None)
             else (m', Some (RuntimeError (m1 @ m2) unexpected (e1 @ e2))))))"

text \<open>
  A state dict as a Python value, and back. A dictionary that holds a value that is not a
  tensor is no state dict; loading it is reported as \<open>TypeError\<close>, before any parameter is
  touched.
\<close>

definition state_dict_obj :: "(string \<times> tensor) list \<Rightarrow> pyval" where
  "state_dict_obj sd = PDict (map (\<lambda>(k, t). (k, PTensor t)) sd)"

fun as_tensors :: "(string \<times> pyval) list \<Rightarrow> (string \<times> tensor) list option" where
  "as_tensors [] = Some []"
| "as_tensors ((k, PTensor t) # kvs) =
     (case as_tensors kvs of None \<Rightarrow> None | Some sd \<Rightarrow> Some ((k, t) # sd))"
| "as_tensors (_ # kvs) = None"

definition load_state_dict :: "network \<Rightarrow> pyval \<Rightarrow> network \<times> error option" where
  "load_state_dict m v =
     (case v of
        PDict kvs \<Rightarrow>
          (case as_tensors kvs of
             None \<Rightarrow> (m, Some TypeError)
           | Some sd \<Rightarrow> load_from_state_dict m sd)
      | _ \<Rightarrow> (m, Some TypeError))"

section \<open>Files\<close>

text \<open>
  \<open>torch.save(obj, path)\<close> writes a snapshot of the object to the file, \<open>torch.load(path)\<close>
  reads it back: the file system maps a path to the object stored there.
\<close>

type_synonym files = "string \<rightharpoonup> pyval"

definition torch_save :: "pyval \<Rightarrow> string \<Rightarrow> files \<Rightarrow> files" where
  "torch_save obj path fs = fs(path \<mapsto> obj)"

definition torch_load :: "string \<Rightarrow> files \<Rightarrow> error + pyval" where
  "torch_load path fs = (case fs path of None \<Rightarrow> Inl (FileNotFoundError path) | Some obj \<Rightarrow> Inr obj)"

text \<open>\<open>d[k]\<close>: \<open>KeyError\<close> when the dictionary has no such key.\<close>

definition getitem :: "pyval \<Rightarrow> string \<Rightarrow> error + pyval" where
  "getitem d k =
     (case d of
        PDict kvs \<Rightarrow> (case map_of kvs k of None \<Rightarrow> Inl (KeyError k) | Some v \<Rightarrow> Inr v)
      | _ \<Rightarrow> Inl TypeError)"

section \<open>The checkpoint loader\<close>

text \<open>
  \<^verbatim>\<open>
  def load_checkpoint(filepath):
      checkpoint = torch.load(filepath)
      model = fc_model.Network(checkpoint['input_size'],
                               checkpoint['output_size'],
                               checkpoint['hidden_layers'])
      model.load_state_dict(checkpoint['state_dict'])
      return model
  \<close>
\<close>

definition Network_call :: "pyval \<Rightarrow> pyval \<Rightarrow> pyval \<Rightarrow> rng \<Rightarrow> error + network" where
  "Network_call a b c g =
     (case (a, b, c) of
        (PInt input_size, PInt output_size, PList hidden) \<Rightarrow>
          Network input_size output_size hidden g
      | _ \<Rightarrow> Inl TypeError)"

definition load_checkpoint :: "string \<Rightarrow> files \<Rightarrow> rng \<Rightarrow> error + network" where
  "load_checkpoint filepath fs g =
     (case torch_load filepath fs of
        Inl e \<Rightarrow> Inl e
      | Inr checkpoint \<Rightarrow>
     (case getitem checkpoint ''input_size'' of
        Inl e \<Rightarrow> Inl e
      | Inr a \<Rightarrow>
     (case getitem checkpoint ''output_size'' of
        Inl e \<Rightarrow> Inl e
      | Inr b \<Rightarrow>
     (case getitem checkpoint ''hidden_layers'' of
        Inl e \<Rightarrow> Inl e
      | Inr c \<Rightarrow>
     (case Network_call a b c g of
        Inl e \<Rightarrow> Inl e
      | Inr model \<Rightarrow>
     (case getitem checkpoint ''state_dict'' of
        Inl e \<Rightarrow> Inl e
      | Inr sd \<Rightarrow>
     (case load_state_dict model sd of
        (model', Some e) \<Rightarrow> Inl e
      | (model', None) \<Rightarrow> Inr model')))))))"

section \<open>The cells of the notebook\<close>

text \<open>
  The variables of the notebook that the cells on saving and loading read and assign, and
  the files. A cell returns the state it leaves behind and the exception that ended it, if
  any; what a cell assigned before it raised stays assigned.
\<close>

record notebook =
  nb_model :: network
  nb_state_dict :: pyval
  nb_checkpoint :: pyval
  nb_files :: files

text \<open>\<^verbatim>\<open>torch.save(model.state_dict(), 'checkpoint.pth')\<close>\<close>

definition cell_7 :: "notebook \<Rightarrow> notebook" where
  "cell_7 s =
     s\<lparr>nb_files := torch_save (state_dict_obj (state_dict (nb_model s))) ''checkpoint.pth'' (nb_files s)\<rparr>"

text \<open>\<^verbatim>\<open>state_dict = torch.load('checkpoint.pth')\<close>\<close>

definition cell_8 :: "notebook \<Rightarrow> notebook \<times> error option" where
  "cell_8 s =
     (case torch_load ''checkpoint.pth'' (nb_files s) of
        Inl e \<Rightarrow> (s, Some e)
      | Inr v \<Rightarrow> (s\<lparr>nb_state_dict := v\<rparr>, None))"

text \<open>\<^verbatim>\<open>model.load_state_dict(state_dict)\<close>\<close>

definition cell_9 :: "notebook \<Rightarrow> notebook \<times> error option" where
  "cell_9 s =
     (case load_state_dict (nb_model s) (nb_state_dict s) of
        (m, r) \<Rightarrow> (s\<lparr>nb_model := m\<rparr>, r))"

text \<open>
  \<^verbatim>\<open>
  model = fc_model.Network(784, 10, [400, 200, 100])
  # This will throw an error because the tensor sizes are wrong!
  model.load_state_dict(state_dict)
  \<close>
\<close>

definition cell_10 :: "rng \<Rightarrow> notebook \<Rightarrow> notebook \<times> error option" where
  "cell_10 g s =
     (case Network 784 10 [400, 200, 100] g of
        Inl e \<Rightarrow> (s, Some e)
      | Inr model \<Rightarrow>
          (case load_state_dict model (nb_state_dict s) of
             (m, r) \<Rightarrow> (s\<lparr>nb_model := m\<rparr>, r)))"

text \<open>
  \<^verbatim>\<open>
  checkpoint = {'input_size': 784,
                'output_size': 10,
                'hidden_layers': [each.out_features for each in model.hidden_layers],
                'state_dict': model.state_dict()}
  torch.save(checkpoint, 'checkpoint.pth')
  \<close>
\<close>

definition checkpoint_of :: "network \<Rightarrow> pyval" where
  "checkpoint_of model =
     PDict [(''input_size'', PInt 784),
            (''output_size'', PInt 10),
            (''hidden_layers'', PList (map out_features (hidden_layers model))),
            (''state_dict'', state_dict_obj (state_dict model))]"

definition cell_11 :: "notebook \<Rightarrow> notebook" where
  "cell_11 s =
     (let checkpoint = checkpoint_of (nb_model s)
      in s\<lparr>nb_checkpoint := checkpoint,
           nb_files := torch_save checkpoint ''checkpoint.pth'' (nb_files s)\<rparr>)"

text \<open>\<^verbatim>\<open>model = load_checkpoint('checkpoint.pth')\<close>\<close>

definition cell_13 :: "rng \<Rightarrow> notebook \<Rightarrow> notebook \<times> error option" where
  "cell_13 g s =
     (case load_checkpoint ''checkpoint.pth'' (nb_files s) g of
        Inl e \<Rightarrow> (s, Some e)
      | Inr m \<Rightarrow> (s\<lparr>nb_model := m\<rparr>, None))"

section \<open>Notions used to state the properties\<close>

text \<open>
  What \<open>load_param\<close> returns, one component at a time: the slot after the call, the
  missing key and the size mismatch it records.
\<close>
definition slot_after :: "(string \<times> tensor) list \<Rightarrow> string \<Rightarrow> tensor \<Rightarrow> tensor" where
  "slot_after sd key param =
     (case map_of sd key of
        None \<Rightarrow> param
      | Some t \<Rightarrow> if shape t \<noteq> shape param then param else param\<lparr>data := data t\<rparr>)"

definition slot_mismatch ::
  "(string \<times> tensor) list \<Rightarrow> string \<Rightarrow> tensor \<Rightarrow> (string \<times> int list \<times> int list) list" where
  "slot_mismatch sd key param =
     (case map_of sd key of
        None \<Rightarrow> []
      | Some t \<Rightarrow> if shape t \<noteq> shape param then [(key, shape t, shape param)] else [])"

definition slot_missing :: "(string \<times> tensor) list \<Rightarrow> string \<Rightarrow> string list" where
  "slot_missing sd key = (if map_of sd key = None then [key] else [])"

text \<open>
  The \<open>RuntimeError\<close> of a load, computed from the slots of the model and the state dict.
\<close>
definition report :: "network \<Rightarrow> (string \<times> tensor) list \<Rightarrow> error" where
  "report m sd =
     RuntimeError
       (concat (map (\<lambda>(k, p). slot_missing sd k) (state_dict m)))
       (filter (\<lambda>k. k \<notin> set (map fst (state_dict m))) (map fst sd))
       (concat (map (\<lambda>(k, p). slot_mismatch sd k p) (state_dict m)))"

text \<open>Two layers of the same widths, with tensors of the same shapes.\<close>
definition same_shape :: "linear \<Rightarrow> linear \<Rightarrow> bool" where
  "same_shape l l' \<longleftrightarrow>
     in_features l = in_features l' \<and> out_features l = out_features l'
     \<and> shape (weight l) = shape (weight l') \<and> shape (bias l) = shape (bias l')"

text \<open>
  The identifiers and shapes of the parameters of \<open>Network(input_size, output_size, hidden)\<close>.
\<close>
fun layer_shapes :: "nat \<Rightarrow> int \<Rightarrow> int list \<Rightarrow> (string \<times> int list) list" where
  "layer_shapes n prev [] = []"
| "layer_shapes n prev (h # hs) =
     (hidden_prefix n @ ''weight'', [h, prev]) # (hidden_prefix n @ ''bias'', [h])
       # layer_shapes (Suc n) h hs"

definition network_shapes :: "int \<Rightarrow> int \<Rightarrow> int list \<Rightarrow> (string \<times> int list) list" where
  "network_shapes input_size output_size hidden =
     layer_shapes 0 input_size hidden
       @ [(''output.weight'', [output_size, last hidden]), (''output.bias'', [output_size])]"

text \<open>The shapes recorded in a state dict, by identifier.\<close>
definition shapes_of :: "(string \<times> tensor) list \<Rightarrow> (string \<times> int list) list" where
  "shapes_of sd = map (\<lambda>(k, t). (k, shape t)) sd"

text \<open>
  Two networks with the same number of hidden layers, the same widths and the same
  parameter shapes: they differ at most in their parameter values.
\<close>
definition same_topology :: "network \<Rightarrow> network \<Rightarrow> bool" where
  "same_topology m m' \<longleftrightarrow>
     list_all2 same_shape (hidden_layers m) (hidden_layers m') \<and> same_shape (output m) (output m')"

text \<open>
  The report of a load as a function of the shapes alone: \<open>stored\<close> are the identifiers and
  shapes in the state dict, \<open>slots\<close> those of the model. \<open>raised\<close> is the exception of a report:
  none when the report is empty.
\<close>
definition shape_mismatch ::
  "(string \<times> int list) list \<Rightarrow> (string \<times> int list) list \<Rightarrow> (string \<times> int list \<times> int list) list" where
  "shape_mismatch stored slots =
     concat (map (\<lambda>(k, s'). case map_of stored k of
                                None \<Rightarrow> []
                              | Some s \<Rightarrow> if s \<noteq> s' then [(k, s, s')] else []) slots)"

definition shape_report :: "(string \<times> int list) list \<Rightarrow> (string \<times> int list) list \<Rightarrow> error" where
  "shape_report stored slots =
     RuntimeError
       (filter (\<lambda>k. map_of stored k = None) (map fst slots))
       (filter (\<lambda>k. k \<notin> set (map fst slots)) (map fst stored))
       (shape_mismatch stored slots)"

definition raised :: "error \<Rightarrow> error option" where
  "raised e =
     (if missing_keys e = [] \<and> unexpected_keys e = [] \<and> size_mismatch e = [] then None
      else Some e)"

text \<open>
  The input width of hidden layer \<open>j\<close>, as the constructor chains the layers; and the
  previous width in the words of the spec's invariant, which gives \<open>output_size\<close> after the
  last hidden layer.
\<close>
definition previous_width :: "int \<Rightarrow> int list \<Rightarrow> nat \<Rightarrow> int" where
  "previous_width input_size hidden j = (if j = 0 then input_size else hidden ! (j - 1))"

definition previous_width_spec :: "int \<Rightarrow> int \<Rightarrow> int list \<Rightarrow> nat \<Rightarrow> int" where
  "previous_width_spec input_size output_size hidden j =
     (if j = 0 then input_size
      else if length hidden \<le> j then output_size
      else hidden ! (j - 1))"

section \<open>Example values\<close>

text \<open>A sequence of initial values, and an empty file system, for the examples.\<close>
definition ramp :: "nat \<Rightarrow> rng" where
  "ramp k i = of_nat (k + i)"

definition no_files :: files where
  "no_files = Map.empty"

text \<open>A checkpoint record for one input, one hidden unit and one output, and its model.\<close>
definition tiny_state :: "(string \<times> tensor) list" where
  "tiny_state =
     [(''hidden_layers.0.weight'', \<lparr>shape = [1, 1], data = [5]\<rparr>),
      (''hidden_layers.0.bias'', \<lparr>shape = [1], data = [6]\<rparr>),
      (''output.weight'', \<lparr>shape = [1, 1], data = [7]\<rparr>),
      (''output.bias'', \<lparr>shape = [1], data = [8]\<rparr>)]"

definition tiny_checkpoint :: pyval where
  "tiny_checkpoint =
     PDict [(''input_size'', PInt 1), (''output_size'', PInt 1), (''hidden_layers'', PList [1]),
            (''state_dict'', state_dict_obj tiny_state)]"

definition tiny_model :: network where
  "tiny_model =
     \<lparr>hidden_layers =
        [\<lparr>in_features = 1, out_features = 1,
          weight = \<lparr>shape = [1, 1], data = [5]\<rparr>, bias = \<lparr>shape = [1], data = [6]\<rparr>\<rparr>],
      output =
        \<lparr>in_features = 1, out_features = 1,
         weight = \<lparr>shape = [1, 1], data = [7]\<rparr>, bias = \<lparr>shape = [1], data = [8]\<rparr>\<rparr>\<rparr>"

text \<open>A notebook in which only the variable \<open>model\<close> is bound, and no file exists yet.\<close>
definition start :: "network \<Rightarrow> notebook" where
  "start m = \<lparr>nb_model = m, nb_state_dict = PDict [], nb_checkpoint = PDict [], nb_files = no_files\<rparr>"

text \<open>
  Small networks: \<open>Network(1, 1, [1])\<close>, \<open>Network(1, 1, [2])\<close>, \<open>Network(2, 10, [1])\<close> and
  \<open>Network(1, 1, [1, 1])\<close> with the initial values of \<open>ramp\<close>; and the network of the
  notebook, \<open>Network(784, 10, [512, 256, 128])\<close>.
\<close>
definition unit_model :: network where
  "unit_model =
     \<lparr>hidden_layers =
        [\<lparr>in_features = 1, out_features = 1,
          weight = \<lparr>shape = [1, 1], data = [0]\<rparr>, bias = \<lparr>shape = [1], data = [1]\<rparr>\<rparr>],
      output =
        \<lparr>in_features = 1, out_features = 1,
         weight = \<lparr>shape = [1, 1], data = [2]\<rparr>, bias = \<lparr>shape = [1], data = [3]\<rparr>\<rparr>\<rparr>"

definition wide_model :: network where
  "wide_model =
     \<lparr>hidden_layers =
        [\<lparr>in_features = 1, out_features = 2,
          weight = \<lparr>shape = [2, 1], data = [10, 11]\<rparr>, bias = \<lparr>shape = [2], data = [12, 13]\<rparr>\<rparr>],
      output =
        \<lparr>in_features = 2, out_features = 1,
         weight = \<lparr>shape = [1, 2], data = [14, 15]\<rparr>, bias = \<lparr>shape = [1], data = [16]\<rparr>\<rparr>\<rparr>"

definition narrow_model :: network where
  "narrow_model =
     \<lparr>hidden_layers =
        [\<lparr>in_features = 2, out_features = 1,
          weight = \<lparr>shape = [1, 2], data = [0, 1]\<rparr>, bias = \<lparr>shape = [1], data = [2]\<rparr>\<rparr>],
      output =
        \<lparr>in_features = 1, out_features = 10,
         weight = \<lparr>shape = [10, 1], data = [3, 4, 5, 6, 7, 8, 9, 10, 11, 12]\<rparr>,
         bias = \<lparr>shape = [10], data = [13, 14, 15, 16, 17, 18, 19, 20, 21, 22]\<rparr>\<rparr>\<rparr>"

definition deep_model :: network where
  "deep_model =
     \<lparr>hidden_layers =
        [\<lparr>in_features = 1, out_features = 1,
          weight = \<lparr>shape = [1, 1], data = [20]\<rparr>, bias = \<lparr>shape = [1], data = [21]\<rparr>\<rparr>,
         \<lparr>in_features = 1, out_features = 1,
          weight = \<lparr>shape = [1, 1], data = [22]\<rparr>, bias = \<lparr>shape = [1], data = [23]\<rparr>\<rparr>],
      output =
        \<lparr>in_features = 1, out_features = 1,
         weight = \<lparr>shape = [1, 1], data = [24]\<rparr>, bias = \<lparr>shape = [1], data = [25]\<rparr>\<rparr>\<rparr>"

definition scenario_model :: network where
  "scenario_model = projr (Network 784 10 [512, 256, 128] (ramp 0))"

text \<open>
  A record whose \<open>hidden_layers\<close> field has drifted from its parameters: the widths say
  \<open>[2]\<close>, the state dict is the one of \<open>Network(1, 1, [1])\<close>.
\<close>
definition drifted_checkpoint :: pyval where
  "drifted_checkpoint =
     PDict [(''input_size'', PInt 1), (''output_size'', PInt 1), (''hidden_layers'', PList [2]),
            (''state_dict'', state_dict_obj (state_dict unit_model))]"

section \<open>Properties of the model\<close>

subsection \<open>Identifiers are distinct\<close>

lemma digit_inj: "a < 10 \<Longrightarrow> b < 10 \<Longrightarrow> digit a = digit b \<Longrightarrow> a = b"
proof -
  assume a: "a < 10" and b: "b < 10" and e: "digit a = digit b"
  have d: "distinct ''0123456789''" by simp
  have "a < length ''0123456789''" "b < length ''0123456789''" using a b by simp_all
  then show "a = b" using e d unfolding digit_def by (simp only: nth_eq_iff_index_eq)
qed

lemma digit_not_dot: "d < 10 \<Longrightarrow> digit d \<noteq> CHR ''.''"
proof -
  assume "d < 10"
  then have "digit d \<in> set ''0123456789''" unfolding digit_def by (simp only: nth_mem length_Cons list.size) 
  then show ?thesis by auto
qed

lemma str_nonempty: "str n \<noteq> []"
  by (subst str.simps) simp

lemma str_no_dot: "CHR ''.'' \<notin> set (str n)"
proof (induction n rule: str.induct)
  case (1 n)
  show ?case
  proof (cases "n < 10")
    case True
    then show ?thesis using digit_not_dot [of n] by (subst str.simps) auto
  next
    case False
    have "n mod 10 < 10" by simp
    then have "digit (n mod 10) \<noteq> CHR ''.''" by (rule digit_not_dot)
    with False "1.IH" show ?thesis by (subst str.simps) auto
  qed
qed

lemma str_inj: "str a = str b \<Longrightarrow> a = b"
proof (induction a arbitrary: b rule: str.induct)
  case (1 a)
  show ?case
  proof (cases "a < 10")
    case a: True
    show ?thesis
    proof (cases "b < 10")
      case True
      with a "1.prems" show ?thesis
        by (simp add: str.simps [of a] str.simps [of b] digit_inj)
    next
      case False
      with a "1.prems" str_nonempty [of "b div 10"] show ?thesis
        by (simp add: str.simps [of a] str.simps [of b])
    qed
  next
    case a: False
    show ?thesis
    proof (cases "b < 10")
      case True
      with a "1.prems" str_nonempty [of "a div 10"] show ?thesis
        by (simp add: str.simps [of a] str.simps [of b])
    next
      case False
      with a "1.prems" have e: "str (a div 10) = str (b div 10)"
        and d: "digit (a mod 10) = digit (b mod 10)"
        by (simp_all add: str.simps [of a] str.simps [of b])
      from "1.IH" [OF a e] have q: "a div 10 = b div 10" .
      have "a mod 10 = b mod 10" using d by (intro digit_inj) simp_all
      with q show ?thesis by (metis div_mult_mod_eq)
    qed
  qed
qed

lemma takeWhile_dot: "CHR ''.'' \<notin> set a \<Longrightarrow> takeWhile (\<lambda>c. c \<noteq> CHR ''.'') (a @ CHR ''.'' # u) = a"
  by (induction a) auto

lemma hidden_prefix_eq:
  assumes "hidden_prefix i @ u = hidden_prefix j @ v"
  shows "i = j \<and> u = v"
proof -
  from assms have e: "str i @ CHR ''.'' # u = str j @ CHR ''.'' # v"
    by (simp add: hidden_prefix_def)
  have "takeWhile (\<lambda>c. c \<noteq> CHR ''.'') (str i @ CHR ''.'' # u) = str i"
    and "takeWhile (\<lambda>c. c \<noteq> CHR ''.'') (str j @ CHR ''.'' # v) = str j"
    by (rule takeWhile_dot, rule str_no_dot)+
  with e have s: "str i = str j" by simp
  then have "i = j" by (rule str_inj)
  with e s show ?thesis by simp
qed

lemma hidden_key_eq [simp]: "hidden_prefix i @ u = hidden_prefix j @ v \<longleftrightarrow> i = j \<and> u = v"
  using hidden_prefix_eq by blast

lemma hidden_prefix_inj [simp]: "hidden_prefix i = hidden_prefix j \<longleftrightarrow> i = j"
  using hidden_prefix_eq [of i "[]" j "[]"] by auto

lemma hidden_key_not_output [simp]:
  "hidden_prefix i @ u \<noteq> CHR ''o'' # v" "CHR ''o'' # v \<noteq> hidden_prefix i @ u"
  by (simp_all add: hidden_prefix_def)

subsection \<open>The load, slot by slot\<close>

lemma load_param_eq:
  "load_param sd k p = (slot_after sd k p, slot_missing sd k, slot_mismatch sd k p)"
  by (simp add: load_param_def slot_after_def slot_missing_def slot_mismatch_def split: option.split)

lemma load_linear_eq:
  "load_linear sd pre l =
     (l\<lparr>weight := slot_after sd (pre @ ''weight'') (weight l),
        bias := slot_after sd (pre @ ''bias'') (bias l)\<rparr>,
      slot_missing sd (pre @ ''weight'') @ slot_missing sd (pre @ ''bias''),
      slot_mismatch sd (pre @ ''weight'') (weight l) @ slot_mismatch sd (pre @ ''bias'') (bias l))"
  by (simp add: load_linear_def load_param_eq)

lemma linear_state_load:
  "linear_state pre (fst (load_linear sd pre l)) =
     map (\<lambda>(k, p). (k, slot_after sd k p)) (linear_state pre l)"
  by (simp add: load_linear_eq linear_state_def)

lemma linear_missing_load:
  "fst (snd (load_linear sd pre l)) = concat (map (\<lambda>(k, p). slot_missing sd k) (linear_state pre l))"
  by (simp add: load_linear_eq linear_state_def)

lemma linear_mismatch_load:
  "snd (snd (load_linear sd pre l)) = concat (map (\<lambda>(k, p). slot_mismatch sd k p) (linear_state pre l))"
  by (simp add: load_linear_eq linear_state_def)

lemma layers_state_load:
  "layers_state i (fst (load_layers sd i ls)) =
     map (\<lambda>(k, p). (k, slot_after sd k p)) (layers_state i ls)"
  by (induction ls arbitrary: i) (simp_all add: linear_state_load split_beta)

lemma layers_missing_load:
  "fst (snd (load_layers sd i ls)) = concat (map (\<lambda>(k, p). slot_missing sd k) (layers_state i ls))"
  by (induction ls arbitrary: i) (simp_all add: linear_missing_load split_beta)

lemma layers_mismatch_load:
  "snd (snd (load_layers sd i ls)) = concat (map (\<lambda>(k, p). slot_mismatch sd k p) (layers_state i ls))"
  by (induction ls arbitrary: i) (simp_all add: linear_mismatch_load split_beta)

lemma state_dict_load:
  "state_dict (fst (load_from_state_dict m sd)) =
     map (\<lambda>(k, p). (k, slot_after sd k p)) (state_dict m)"
  by (simp add: load_from_state_dict_def state_dict_def Let_def layers_state_load
      linear_state_load split_beta)

lemma error_load:
  "snd (load_from_state_dict m sd) =
     (if missing_keys (report m sd) = [] \<and> unexpected_keys (report m sd) = []
         \<and> size_mismatch (report m sd) = []
      then None else Some (report m sd))"
  by (simp add: load_from_state_dict_def report_def state_dict_def Let_def split_beta
      layers_missing_load layers_mismatch_load linear_missing_load linear_mismatch_load)

subsection \<open>What the constructor builds\<close>

lemma Linear_Inr:
  assumes "Linear a b g = Inr (l, g')"
  shows "0 < a" "0 < b" "in_features l = a" "out_features l = b"
    "shape (weight l) = [b, a]" "shape (bias l) = [b]"
  using assms by (auto simp: Linear_def init_tensor_def split: if_splits)

lemma Linear_succeeds: "0 < a \<Longrightarrow> 0 < b \<Longrightarrow> \<exists>l g'. Linear a b g = Inr (l, g')"
  by (simp add: Linear_def init_tensor_def)

lemma Linear_same_shape:
  "Linear a b g = Inr (l, g1) \<Longrightarrow> Linear a b g' = Inr (l', g1') \<Longrightarrow> same_shape l l'"
  by (simp add: same_shape_def Linear_Inr)

lemma layer_chain_Inr:
  assumes "layer_chain p hs g = Inr (ls, g')"
  shows "shapes_of (layers_state n ls) = layer_shapes n p hs"
    and "map out_features ls = hs"
    and "\<forall>h\<in>set hs. 0 < h"
    and "hs \<noteq> [] \<Longrightarrow> 0 < p"
  using assms
proof (induction hs arbitrary: p g ls n)
  case Nil
  { case 1 then show ?case by (simp add: shapes_of_def) }
  { case 2 then show ?case by simp }
  { case 3 then show ?case by simp }
  { case 4 then show ?case by simp }
next
  case (Cons h hs)
  { case 1
    then obtain l g1 ls1 where l: "Linear p h g = Inr (l, g1)"
      and c: "layer_chain h hs g1 = Inr (ls1, g')" and e: "ls = l # ls1"
      by (auto split: sum.splits)
    from Cons.IH(1) [OF c, of "Suc n"] Linear_Inr [OF l] e show ?case
      by (simp add: shapes_of_def linear_state_def) }
  { case 2
    then obtain l g1 ls1 where l: "Linear p h g = Inr (l, g1)"
      and c: "layer_chain h hs g1 = Inr (ls1, g')" and e: "ls = l # ls1"
      by (auto split: sum.splits)
    from Cons.IH(2) [OF c] Linear_Inr [OF l] e show ?case by simp }
  { case 3
    then obtain l g1 ls1 where l: "Linear p h g = Inr (l, g1)"
      and c: "layer_chain h hs g1 = Inr (ls1, g')" and e: "ls = l # ls1"
      by (auto split: sum.splits)
    from Cons.IH(3) [OF c] Linear_Inr [OF l] e show ?case by simp }
  { case 4
    then obtain l g1 where l: "Linear p h g = Inr (l, g1)"
      by (auto split: sum.splits)
    from Linear_Inr [OF l] show ?case by simp }
qed

lemma layer_chain_succeeds:
  "hs = [] \<or> 0 < p \<Longrightarrow> \<forall>h\<in>set hs. 0 < h \<Longrightarrow> \<exists>ls g'. layer_chain p hs g = Inr (ls, g')"
proof (induction hs arbitrary: p g)
  case Nil
  then show ?case by simp
next
  case (Cons h hs)
  then have "0 < p" "0 < h" by simp_all
  then obtain l g1 where l: "Linear p h g = Inr (l, g1)"
    using Linear_succeeds by blast
  from Cons.prems \<open>0 < h\<close> obtain ls g' where "layer_chain h hs g1 = Inr (ls, g')"
    using Cons.IH [of h g1] by auto
  with l show ?case by simp
qed

lemma layer_chain_same_shape:
  "layer_chain p hs g = Inr (ls, g1) \<Longrightarrow> layer_chain p hs g' = Inr (ls', g1')
     \<Longrightarrow> list_all2 same_shape ls ls'"
proof (induction hs arbitrary: p g g' ls ls')
  case Nil
  then show ?case by simp
next
  case (Cons h hs)
  from Cons.prems(1) obtain l ga ls1 where l: "Linear p h g = Inr (l, ga)"
    and c: "layer_chain h hs ga = Inr (ls1, g1)" and e: "ls = l # ls1"
    by (auto split: sum.splits)
  from Cons.prems(2) obtain l' gb ls1' where l': "Linear p h g' = Inr (l', gb)"
    and c': "layer_chain h hs gb = Inr (ls1', g1')" and e': "ls' = l' # ls1'"
    by (auto split: sum.splits)
  from Cons.IH [OF c c'] Linear_same_shape [OF l l'] e e' show ?case by simp
qed

lemma Network_Inr:
  assumes "Network i o' hs g = Inr m"
  shows "shapes_of (state_dict m) = network_shapes i o' hs"
    and "map out_features (hidden_layers m) = hs"
    and "hs \<noteq> []" and "0 < i" and "0 < o'" and "\<forall>h\<in>set hs. 0 < h"
proof -
  from assms have ne: "hs \<noteq> []" by (auto simp: Network_def split: list.splits)
  with assms obtain ls g1 out g2 where c: "layer_chain i hs g = Inr (ls, g1)"
    and l: "Linear (last hs) o' g1 = Inr (out, g2)"
    and m: "m = \<lparr>hidden_layers = ls, output = out\<rparr>"
    by (auto simp: Network_def split: list.splits sum.splits)
  show "hs \<noteq> []" by (rule ne)
  show "0 < i" using layer_chain_Inr(4) [OF c ne] .
  show "0 < o'" using Linear_Inr(2) [OF l] .
  show "\<forall>h\<in>set hs. 0 < h" using layer_chain_Inr(3) [OF c] .
  show "map out_features (hidden_layers m) = hs" using layer_chain_Inr(2) [OF c] m by simp
  show "shapes_of (state_dict m) = network_shapes i o' hs"
    using layer_chain_Inr(1) [OF c, of 0] Linear_Inr [OF l] m
    by (simp add: shapes_of_def state_dict_def network_shapes_def linear_state_def)
qed

lemma Network_succeeds:
  assumes "hs \<noteq> []" "0 < i" "0 < o'" "\<forall>h\<in>set hs. 0 < h"
  shows "\<exists>m. Network i o' hs g = Inr m"
proof -
  from assms obtain ls g1 where c: "layer_chain i hs g = Inr (ls, g1)"
    using layer_chain_succeeds [of hs i g] by auto
  from assms have "0 < last hs" by simp
  with assms obtain out g2 where "Linear (last hs) o' g1 = Inr (out, g2)"
    using Linear_succeeds by blast
  with c assms(1) show ?thesis by (auto simp: Network_def split: list.splits)
qed

lemma Network_same_shape:
  assumes "Network i o' hs g = Inr m" "Network i o' hs g' = Inr m'"
  shows "list_all2 same_shape (hidden_layers m) (hidden_layers m')"
    and "same_shape (output m) (output m')"
proof -
  from assms(1) obtain ls g1 out g2 where c: "layer_chain i hs g = Inr (ls, g1)"
    and l: "Linear (last hs) o' g1 = Inr (out, g2)"
    and m: "m = \<lparr>hidden_layers = ls, output = out\<rparr>"
    by (auto simp: Network_def split: list.splits sum.splits)
  from assms(2) obtain ls' g1' out' g2' where c': "layer_chain i hs g' = Inr (ls', g1')"
    and l': "Linear (last hs) o' g1' = Inr (out', g2')"
    and m': "m' = \<lparr>hidden_layers = ls', output = out'\<rparr>"
    by (auto simp: Network_def split: list.splits sum.splits)
  show "list_all2 same_shape (hidden_layers m) (hidden_layers m')"
    using layer_chain_same_shape [OF c c'] m m' by simp
  show "same_shape (output m) (output m')"
    using Linear_same_shape [OF l l'] m m' by simp
qed

lemma Network_rng:
  assumes "Network i o' hs g = Inr m"
  shows "\<exists>m'. Network i o' hs g' = Inr m'"
  using Network_Inr [OF assms] Network_succeeds by blast

subsection \<open>Loading into a model of the same shapes\<close>

lemma as_tensors_obj: "as_tensors (map (\<lambda>(k, t). (k, PTensor t)) sd) = Some sd"
  by (induction sd) auto

lemma load_state_dict_obj: "load_state_dict m (state_dict_obj sd) = load_from_state_dict m sd"
  by (simp add: load_state_dict_def state_dict_obj_def as_tensors_obj)

lemma layers_state_keys:
  "fst ` set (layers_state i ls)
     = (\<Union>j\<in>{i..<i + length ls}. {hidden_prefix j @ ''weight'', hidden_prefix j @ ''bias''})"
proof (induction ls arbitrary: i)
  case Nil
  then show ?case by simp
next
  case (Cons l ls)
  have "{i..<i + length (l # ls)} = insert i {Suc i..<Suc i + length ls}" by auto
  with Cons.IH [of "Suc i"] show ?case by (simp add: linear_state_def)
qed

lemma layers_state_distinct: "distinct (map fst (layers_state i ls))"
proof (induction ls arbitrary: i)
  case Nil
  then show ?case by simp
next
  case (Cons l ls)
  have "hidden_prefix i @ u \<notin> fst ` set (layers_state (Suc i) ls)" for u
    by (auto simp: layers_state_keys)
  with Cons.IH [of "Suc i"] show ?case by (simp add: linear_state_def)
qed

lemma state_dict_distinct: "distinct (map fst (state_dict m))"
proof -
  have "''output.'' @ u \<notin> fst ` set (layers_state 0 (hidden_layers m))" for u
    by (auto simp: layers_state_keys)
  from this [of "''weight''"] this [of "''bias''"] show ?thesis
    by (simp add: state_dict_def layers_state_distinct linear_state_def)
qed

lemma state_dict_lookup: "(k, t) \<in> set (state_dict m) \<Longrightarrow> map_of (state_dict m) k = Some t"
  by (simp add: state_dict_distinct)

lemma layers_state_keys_length:
  "length ls = length ls' \<Longrightarrow> map fst (layers_state i ls) = map fst (layers_state i ls')"
  by (induction ls ls' arbitrary: i rule: list_induct2) (simp_all add: linear_state_def)

lemma state_dict_keys_length:
  "length (hidden_layers m) = length (hidden_layers m')
     \<Longrightarrow> map fst (state_dict m) = map fst (state_dict m')"
  using layers_state_keys_length [of "hidden_layers m" "hidden_layers m'" 0]
  by (simp add: state_dict_def linear_state_def)

lemma load_param_same:
  "map_of sd k = Some t \<Longrightarrow> shape p = shape t \<Longrightarrow> load_param sd k p = (t, [], [])"
  by (simp add: load_param_def)

lemma load_linear_same:
  assumes "same_shape l' l"
    and "map_of sd (pre @ ''weight'') = Some (weight l)"
    and "map_of sd (pre @ ''bias'') = Some (bias l)"
  shows "load_linear sd pre l' = (l, [], [])"
  using assms by (simp add: load_linear_def load_param_same same_shape_def)

lemma load_layers_same:
  assumes "list_all2 same_shape ls' ls"
    and "\<forall>(k, t)\<in>set (layers_state i ls). map_of sd k = Some t"
  shows "load_layers sd i ls' = (ls, [], [])"
  using assms
proof (induction ls' ls arbitrary: i rule: list_all2_induct)
  case Nil
  then show ?case by simp
next
  case (Cons l' ls' l ls)
  from Cons.prems have "load_linear sd (hidden_prefix i) l' = (l, [], [])"
    by (intro load_linear_same Cons.hyps) (simp_all add: linear_state_def)
  moreover from Cons.prems have "load_layers sd (Suc i) ls' = (ls, [], [])"
    by (intro Cons.IH) simp
  ultimately show ?case by simp
qed

lemma load_same_topology:
  assumes "list_all2 same_shape (hidden_layers m') (hidden_layers m)"
    and "same_shape (output m') (output m)"
  shows "load_from_state_dict m' (state_dict m) = (m, None)"
proof -
  let ?sd = "state_dict m"
  have look: "\<forall>(k, t)\<in>set ?sd. map_of ?sd k = Some t"
    using state_dict_lookup by auto
  then have "\<forall>(k, t)\<in>set (layers_state 0 (hidden_layers m)). map_of ?sd k = Some t"
    and "\<forall>(k, t)\<in>set (linear_state ''output.'' (output m)). map_of ?sd k = Some t"
    by (simp_all add: state_dict_def)
  then have h: "load_layers ?sd 0 (hidden_layers m') = (hidden_layers m, [], [])"
    and o: "load_linear ?sd ''output.'' (output m') = (output m, [], [])"
    using assms by (auto intro!: load_layers_same load_linear_same simp: linear_state_def)
  from assms(1) have "length (hidden_layers m') = length (hidden_layers m)"
    by (rule list_all2_lengthD)
  then have "map fst (state_dict m') = map fst ?sd" by (rule state_dict_keys_length)
  then have u: "filter (\<lambda>k. k \<notin> set (map fst (state_dict m'))) (map fst ?sd) = []"
    by simp
  show ?thesis
    by (simp add: load_from_state_dict_def h o u del: set_map)
qed

lemma same_shape_refl: "same_shape l l"
  by (simp add: same_shape_def)

lemma load_param_ok:
  "load_param sd k p = (p1, [], []) \<Longrightarrow> shape p' = shape p \<Longrightarrow> load_param sd k p' = (p1, [], [])"
proof -
  assume a: "load_param sd k p = (p1, [], [])" and s: "shape p' = shape p"
  show ?thesis
  proof (cases "map_of sd k")
    case None
    with a show ?thesis by (simp add: load_param_def)
  next
    case (Some t)
    show ?thesis
    proof (cases "shape t = shape p")
      case True
      with a Some have "p1 = p\<lparr>data := data t\<rparr>" by (simp add: load_param_def)
      then have "p1 = p'\<lparr>data := data t\<rparr>" using s by (intro tensor.equality) simp_all
      with True Some s show ?thesis by (simp add: load_param_def)
    next
      case False
      with a Some show ?thesis by (simp add: load_param_def)
    qed
  qed
qed

lemma load_linear_ok:
  assumes "load_linear sd pre l = (l1, [], [])" "same_shape l l'"
  shows "load_linear sd pre l' = (l1, [], [])"
proof -
  obtain w mw ew where w: "load_param sd (pre @ ''weight'') (weight l) = (w, mw, ew)"
    by (cases "load_param sd (pre @ ''weight'') (weight l)") auto
  obtain b mb eb where b: "load_param sd (pre @ ''bias'') (bias l) = (b, mb, eb)"
    by (cases "load_param sd (pre @ ''bias'') (bias l)") auto
  from assms(1) w b have e: "mw = []" "ew = []" "mb = []" "eb = []"
    and l1: "l1 = l\<lparr>weight := w, bias := b\<rparr>"
    by (simp_all add: load_linear_def)
  from assms(2) have s: "shape (weight l') = shape (weight l)" "shape (bias l') = shape (bias l)"
    and f: "in_features l' = in_features l" "out_features l' = out_features l"
    by (simp_all add: same_shape_def)
  from w e have w0: "load_param sd (pre @ ''weight'') (weight l) = (w, [], [])" by simp
  from b e have b0: "load_param sd (pre @ ''bias'') (bias l) = (b, [], [])" by simp
  have w': "load_param sd (pre @ ''weight'') (weight l') = (w, [], [])"
    using w0 s(1) by (rule load_param_ok)
  have b': "load_param sd (pre @ ''bias'') (bias l') = (b, [], [])"
    using b0 s(2) by (rule load_param_ok)
  from w' b' l1 f show ?thesis by (simp add: load_linear_def)
qed

lemma load_layers_ok:
  assumes "list_all2 same_shape ls ls'" "load_layers sd i ls = (r, [], [])"
  shows "load_layers sd i ls' = (r, [], [])"
  using assms
proof (induction ls ls' arbitrary: i r rule: list_all2_induct)
  case Nil
  then show ?case by simp
next
  case (Cons l ls l' ls')
  obtain l1 m1 e1 where a: "load_linear sd (hidden_prefix i) l = (l1, m1, e1)"
    by (cases "load_linear sd (hidden_prefix i) l") auto
  obtain ls1 m2 e2 where b: "load_layers sd (Suc i) ls = (ls1, m2, e2)"
    by (cases "load_layers sd (Suc i) ls") auto
  from Cons.prems a b have e: "m1 = []" "e1 = []" "m2 = []" "e2 = []" and r: "r = l1 # ls1"
    by simp_all
  from a e have a0: "load_linear sd (hidden_prefix i) l = (l1, [], [])" by simp
  from b e have b0: "load_layers sd (Suc i) ls = (ls1, [], [])" by simp
  have "load_linear sd (hidden_prefix i) l' = (l1, [], [])"
    using a0 Cons.hyps(1) by (rule load_linear_ok)
  moreover have "load_layers sd (Suc i) ls' = (ls1, [], [])"
    using b0 by (rule Cons.IH)
  ultimately show ?case using r by simp
qed

lemma load_ok_topology:
  assumes "list_all2 same_shape (hidden_layers m) (hidden_layers m')"
    and "same_shape (output m) (output m')"
    and "load_from_state_dict m sd = (m1, None)"
  shows "load_from_state_dict m' sd = (m1, None)"
proof -
  obtain hs ma ea where a: "load_layers sd 0 (hidden_layers m) = (hs, ma, ea)"
    by (cases "load_layers sd 0 (hidden_layers m)") auto
  obtain out mb eb where b: "load_linear sd ''output.'' (output m) = (out, mb, eb)"
    by (cases "load_linear sd ''output.'' (output m)") auto
  from assms(3) a b have e: "ma = []" "ea = []" "mb = []" "eb = []"
    and u: "filter (\<lambda>k. k \<notin> set (map fst (state_dict m))) (map fst sd) = []"
    and m1: "m1 = \<lparr>hidden_layers = hs, output = out\<rparr>"
    by (auto simp: load_from_state_dict_def Let_def split: if_splits)
  from a e have a0: "load_layers sd 0 (hidden_layers m) = (hs, [], [])" by simp
  from b e have b0: "load_linear sd ''output.'' (output m) = (out, [], [])" by simp
  have a': "load_layers sd 0 (hidden_layers m') = (hs, [], [])"
    using assms(1) a0 by (rule load_layers_ok)
  have b': "load_linear sd ''output.'' (output m') = (out, [], [])"
    using b0 assms(2) by (rule load_linear_ok)
  from assms(1) have "length (hidden_layers m) = length (hidden_layers m')"
    by (rule list_all2_lengthD)
  then have "map fst (state_dict m) = map fst (state_dict m')" by (rule state_dict_keys_length)
  with u have u': "filter (\<lambda>k. k \<notin> set (map fst (state_dict m'))) (map fst sd) = []"
    by simp
  from a' b' u' m1 show ?thesis
    by (simp add: load_from_state_dict_def del: set_map)
qed

lemma same_shape_sym: "same_shape l l' \<Longrightarrow> same_shape l' l"
  by (simp add: same_shape_def)

lemma same_shape_trans: "same_shape a b \<Longrightarrow> same_shape b c \<Longrightarrow> same_shape a c"
  by (simp add: same_shape_def)

lemma same_topology_refl: "same_topology m m"
  by (simp add: same_topology_def same_shape_refl list_all2_refl)

lemma same_topology_sym: "same_topology m m' \<Longrightarrow> same_topology m' m"
  by (auto simp: same_topology_def list_all2_conv_all_nth intro: same_shape_sym)

lemma same_topology_trans:
  "same_topology a b \<Longrightarrow> same_topology b c \<Longrightarrow> same_topology a c"
  unfolding same_topology_def
  by (blast intro: same_shape_trans list_all2_trans [of same_shape same_shape same_shape])

lemma Network_same_topology:
  "Network i o' hs g = Inr m \<Longrightarrow> Network i o' hs g' = Inr m' \<Longrightarrow> same_topology m m'"
  by (simp add: same_topology_def Network_same_shape)

lemma same_topology_out_features:
  "same_topology m m' \<Longrightarrow> map out_features (hidden_layers m) = map out_features (hidden_layers m')"
  by (auto simp: same_topology_def list_all2_conv_all_nth same_shape_def intro: nth_equalityI)

subsection \<open>The loader on a record and on the writer's file\<close>

lemma load_checkpoint_fields:
  assumes "fs path = Some (PDict kvs)"
    and "map_of kvs ''input_size'' = Some a"
    and "map_of kvs ''output_size'' = Some b"
    and "map_of kvs ''hidden_layers'' = Some c"
    and "map_of kvs ''state_dict'' = Some d"
  shows "load_checkpoint path fs g =
     (case Network_call a b c g of
        Inl e \<Rightarrow> Inl e
      | Inr m0 \<Rightarrow> (case load_state_dict m0 d of (m1, Some e) \<Rightarrow> Inl e | (m1, None) \<Rightarrow> Inr m1))"
  using assms by (simp add: load_checkpoint_def torch_load_def getitem_def split: sum.split)

lemma load_checkpoint_of:
  "load_checkpoint path (torch_save (checkpoint_of m) path fs) g =
     (case Network 784 10 (map out_features (hidden_layers m)) g of
        Inl e \<Rightarrow> Inl e
      | Inr m0 \<Rightarrow>
          (case load_from_state_dict m0 (state_dict m) of
             (m1, Some e) \<Rightarrow> Inl e
           | (m1, None) \<Rightarrow> Inr m1))"
proof -
  have "load_checkpoint path (torch_save (checkpoint_of m) path fs) g =
     (case Network_call (PInt 784) (PInt 10) (PList (map out_features (hidden_layers m))) g of
        Inl e \<Rightarrow> Inl e
      | Inr m0 \<Rightarrow>
          (case load_state_dict m0 (state_dict_obj (state_dict m)) of
             (m1, Some e) \<Rightarrow> Inl e
           | (m1, None) \<Rightarrow> Inr m1))"
    by (rule load_checkpoint_fields [where kvs = "[(''input_size'', PInt 784),
            (''output_size'', PInt 10),
            (''hidden_layers'', PList (map out_features (hidden_layers m))),
            (''state_dict'', state_dict_obj (state_dict m))]"])
      (simp_all add: torch_save_def checkpoint_of_def)
  then show ?thesis by (simp add: Network_call_def load_state_dict_obj split: sum.split)
qed

lemma cell_11_files:
  "nb_files (cell_11 s) = torch_save (checkpoint_of (nb_model s)) ''checkpoint.pth'' (nb_files s)"
  by (simp add: cell_11_def Let_def)

lemma load_written:
  assumes "Network 784 10 hidden g0 = Inr m0" and "same_topology model m0"
  shows "load_checkpoint path (torch_save (checkpoint_of model) path fs) g = Inr model"
proof -
  from assms(2) have "map out_features (hidden_layers model) = map out_features (hidden_layers m0)"
    by (rule same_topology_out_features)
  with Network_Inr(2) [OF assms(1)] have h: "map out_features (hidden_layers model) = hidden"
    by simp
  from Network_rng [OF assms(1)] obtain m1 where m1: "Network 784 10 hidden g = Inr m1"
    by blast
  from assms(1) m1 have "same_topology m0 m1" by (rule Network_same_topology)
  with assms(2) have "same_topology model m1" by (rule same_topology_trans)
  then have "same_topology m1 model" by (rule same_topology_sym)
  then have "load_from_state_dict m1 (state_dict model) = (model, None)"
    by (simp add: same_topology_def load_same_topology)
  with h m1 show ?thesis by (simp add: load_checkpoint_of)
qed

lemma torch_load_Inr: "torch_load p fs = Inr v \<longleftrightarrow> fs p = Some v"
  by (simp add: torch_load_def split: option.split)

lemma getitem_Inr: "getitem v k = Inr x \<longleftrightarrow> (\<exists>kvs. v = PDict kvs \<and> map_of kvs k = Some x)"
  by (simp add: getitem_def split: pyval.split option.split)

lemma Network_call_Inr:
  "Network_call a b c g = Inr m
     \<longleftrightarrow> (\<exists>i o' hs. a = PInt i \<and> b = PInt o' \<and> c = PList hs \<and> Network i o' hs g = Inr m)"
  by (simp add: Network_call_def split: pyval.split)

lemma as_tensors_Some:
  "as_tensors kvs = Some sd \<Longrightarrow> kvs = map (\<lambda>(k, t). (k, PTensor t)) sd"
  by (induction kvs arbitrary: sd rule: as_tensors.induct) (auto split: option.splits)

lemma load_state_dict_None:
  "load_state_dict m0 d = (m, None)
     \<longleftrightarrow> (\<exists>sd. d = state_dict_obj sd \<and> load_from_state_dict m0 sd = (m, None))"
proof
  assume a: "load_state_dict m0 d = (m, None)"
  then obtain kvs sd where d: "d = PDict kvs" and t: "as_tensors kvs = Some sd"
    and l: "load_from_state_dict m0 sd = (m, None)"
    by (auto simp: load_state_dict_def split: pyval.splits option.splits)
  from as_tensors_Some [OF t] d have "d = state_dict_obj sd" by (simp add: state_dict_obj_def)
  with l show "\<exists>sd. d = state_dict_obj sd \<and> load_from_state_dict m0 sd = (m, None)" by blast
next
  assume "\<exists>sd. d = state_dict_obj sd \<and> load_from_state_dict m0 sd = (m, None)"
  then show "load_state_dict m0 d = (m, None)" by (auto simp: load_state_dict_obj)
qed

lemma load_checkpoint_Inr:
  assumes "load_checkpoint path fs g = Inr m"
  shows "\<exists>kvs a b c d m0. fs path = Some (PDict kvs)
      \<and> map_of kvs ''input_size'' = Some (PInt a)
      \<and> map_of kvs ''output_size'' = Some (PInt b)
      \<and> map_of kvs ''hidden_layers'' = Some (PList c)
      \<and> map_of kvs ''state_dict'' = Some (state_dict_obj d)
      \<and> Network a b c g = Inr m0
      \<and> load_from_state_dict m0 d = (m, None)"
proof -
  from assms obtain ck a b c m0 d where ck: "torch_load path fs = Inr ck"
    and a: "getitem ck ''input_size'' = Inr a"
    and b: "getitem ck ''output_size'' = Inr b"
    and c: "getitem ck ''hidden_layers'' = Inr c"
    and n: "Network_call a b c g = Inr m0"
    and d: "getitem ck ''state_dict'' = Inr d"
    and l: "load_state_dict m0 d = (m, None)"
    by (auto simp: load_checkpoint_def split: sum.splits prod.splits option.splits)
  from a obtain kvs where kvs: "ck = PDict kvs" by (auto simp: getitem_Inr)
  from ck kvs have 1: "fs path = Some (PDict kvs)" by (simp add: torch_load_Inr)
  from n obtain i o' hs where t: "a = PInt i" "b = PInt o'" "c = PList hs"
    and n': "Network i o' hs g = Inr m0"
    by (auto simp: Network_call_Inr)
  from l obtain sd where sd: "d = state_dict_obj sd" and l': "load_from_state_dict m0 sd = (m, None)"
    by (auto simp: load_state_dict_None)
  from a b c d kvs t sd have "map_of kvs ''input_size'' = Some (PInt i)"
    "map_of kvs ''output_size'' = Some (PInt o')"
    "map_of kvs ''hidden_layers'' = Some (PList hs)"
    "map_of kvs ''state_dict'' = Some (state_dict_obj sd)"
    by (simp_all add: getitem_Inr)
  with 1 n' l' show ?thesis by blast
qed

subsection \<open>The report depends on the shapes only\<close>

lemma shapes_of_simps [simp]:
  "shapes_of [] = []" "shapes_of ((k, t) # sd) = (k, shape t) # shapes_of sd"
  "shapes_of (xs @ ys) = shapes_of xs @ shapes_of ys"
  by (simp_all add: shapes_of_def)

lemma map_of_shapes_of: "map_of (shapes_of sd) k = map_option shape (map_of sd k)"
  by (induction sd) auto

lemma map_fst_shapes_of: "map fst (shapes_of sd) = map fst sd"
  by (induction sd) auto

lemma missing_shapes:
  "concat (map (\<lambda>(k, p). slot_missing sd k) xs)
     = filter (\<lambda>k. map_of (shapes_of sd) k = None) (map fst (shapes_of xs))"
  by (induction xs) (auto simp: slot_missing_def map_of_shapes_of)

lemma mismatch_shapes:
  "concat (map (\<lambda>(k, p). slot_mismatch sd k p) xs) = shape_mismatch (shapes_of sd) (shapes_of xs)"
  by (induction xs)
    (auto simp: slot_mismatch_def shape_mismatch_def map_of_shapes_of split: option.splits)

lemma report_shapes: "report m sd = shape_report (shapes_of sd) (shapes_of (state_dict m))"
  by (simp add: report_def shape_report_def missing_shapes mismatch_shapes map_fst_shapes_of
      del: set_map)

lemma error_load_shapes:
  "snd (load_from_state_dict m sd) = raised (shape_report (shapes_of sd) (shapes_of (state_dict m)))"
  by (simp add: error_load raised_def report_shapes)

lemma load_built:
  assumes "Network i o' hs g0 = Inr m" and "Network i' o'' hs' g = Inr m'"
  shows "snd (load_from_state_dict m' (state_dict m))
           = raised (shape_report (network_shapes i o' hs) (network_shapes i' o'' hs'))"
  by (simp add: error_load_shapes Network_Inr(1) [OF assms(1)] Network_Inr(1) [OF assms(2)])

lemma load_checkpoint_of_built:
  assumes "Network i o' hs g0 = Inr m"
    and "raised (shape_report (network_shapes i o' hs) (network_shapes 784 10 hs)) = Some e"
  shows "load_checkpoint path (torch_save (checkpoint_of m) path fs) g = Inl e"
proof -
  from Network_Inr [OF assms(1)] have h: "map out_features (hidden_layers m) = hs"
    and p: "hs \<noteq> []" "\<forall>h\<in>set hs. 0 < h"
    by simp_all
  have "0 < (784::int)" "0 < (10::int)" by simp_all
  with p obtain m0 where m0: "Network 784 10 hs g = Inr m0"
    using Network_succeeds [of hs 784 10 g] by blast
  obtain m1 r where l: "load_from_state_dict m0 (state_dict m) = (m1, r)"
    by (cases "load_from_state_dict m0 (state_dict m)") blast
  from load_built [OF assms(1) m0] assms(2) l have "r = Some e" by simp
  with h m0 l show ?thesis by (simp add: load_checkpoint_of)
qed

subsection \<open>Loading into a model built with other hidden widths\<close>

lemma state_dict_keys:
  "fst ` set (state_dict m)
     = (\<Union>j\<in>{0..<length (hidden_layers m)}.
          {hidden_prefix j @ ''weight'', hidden_prefix j @ ''bias''})
       \<union> {''output.weight'', ''output.bias''}"
  using layers_state_keys [of 0 "hidden_layers m"]
  by (simp add: state_dict_def linear_state_def image_Un Un_commute)

lemma layers_state_member:
  "j < length ls \<Longrightarrow>
     (hidden_prefix (i + j) @ ''weight'', weight (ls ! j)) \<in> set (layers_state i ls)
     \<and> (hidden_prefix (i + j) @ ''bias'', bias (ls ! j)) \<in> set (layers_state i ls)"
proof (induction ls arbitrary: i j)
  case Nil
  then show ?case by simp
next
  case (Cons l ls)
  show ?case
  proof (cases j)
    case 0
    then show ?thesis by (simp add: linear_state_def)
  next
    case (Suc j')
    with Cons.prems have "j' < length ls" by simp
    from Cons.IH [OF this, of "Suc i"] Suc show ?thesis by simp
  qed
qed

lemma state_dict_hidden:
  assumes "j < length (hidden_layers m)"
  shows "map_of (state_dict m) (hidden_prefix j @ ''weight'') = Some (weight (hidden_layers m ! j))"
    and "map_of (state_dict m) (hidden_prefix j @ ''bias'') = Some (bias (hidden_layers m ! j))"
proof -
  from layers_state_member [OF assms, of 0]
  have "(hidden_prefix j @ ''weight'', weight (hidden_layers m ! j)) \<in> set (state_dict m)"
    and "(hidden_prefix j @ ''bias'', bias (hidden_layers m ! j)) \<in> set (state_dict m)"
    by (simp_all add: state_dict_def)
  then show "map_of (state_dict m) (hidden_prefix j @ ''weight'') = Some (weight (hidden_layers m ! j))"
    and "map_of (state_dict m) (hidden_prefix j @ ''bias'') = Some (bias (hidden_layers m ! j))"
    by (simp_all add: state_dict_lookup)
qed

lemma state_dict_output:
  "map_of (state_dict m) ''output.weight'' = Some (weight (output m))"
  "map_of (state_dict m) ''output.bias'' = Some (bias (output m))"
proof -
  have "(''output.weight'', weight (output m)) \<in> set (state_dict m)"
    and "(''output.bias'', bias (output m)) \<in> set (state_dict m)"
    by (simp_all add: state_dict_def linear_state_def)
  then show "map_of (state_dict m) ''output.weight'' = Some (weight (output m))"
    and "map_of (state_dict m) ''output.bias'' = Some (bias (output m))"
    by (simp_all add: state_dict_lookup)
qed

lemma layer_chain_wf:
  "layer_chain p hs g = Inr (ls, g') \<Longrightarrow>
     \<forall>l\<in>set ls. shape (weight l) = [out_features l, in_features l]
                \<and> shape (bias l) = [out_features l]"
proof (induction hs arbitrary: p g ls)
  case Nil
  then show ?case by simp
next
  case (Cons h hs)
  from Cons.prems obtain l g1 ls1 where l: "Linear p h g = Inr (l, g1)"
    and c: "layer_chain h hs g1 = Inr (ls1, g')" and e: "ls = l # ls1"
    by (auto split: sum.splits)
  from Cons.IH [OF c] Linear_Inr [OF l] e show ?case by simp
qed

lemma Network_hidden:
  assumes "Network i o' hs g = Inr m" and "j < length hs"
  shows "length (hidden_layers m) = length hs"
    and "hd (shape (weight (hidden_layers m ! j))) = hs ! j"
    and "shape (bias (hidden_layers m ! j)) = [hs ! j]"
proof -
  from assms(1) obtain ls g1 out g2 where c: "layer_chain i hs g = Inr (ls, g1)"
    and m: "m = \<lparr>hidden_layers = ls, output = out\<rparr>"
    by (auto simp: Network_def split: list.splits sum.splits)
  from Network_Inr(2) [OF assms(1)] have o: "map out_features (hidden_layers m) = hs" .
  then have len: "length (hidden_layers m) = length hs" by (metis length_map)
  show "length (hidden_layers m) = length hs" by (rule len)
  from o assms(2) len have oj: "out_features (hidden_layers m ! j) = hs ! j"
    by (metis nth_map)
  from assms(2) len m have "hidden_layers m ! j \<in> set ls" by simp
  with layer_chain_wf [OF c] oj
  show "hd (shape (weight (hidden_layers m ! j))) = hs ! j"
    and "shape (bias (hidden_layers m ! j)) = [hs ! j]"
    by simp_all
qed

lemma Network_length:
  "Network i o' hs g = Inr m \<Longrightarrow> length (hidden_layers m) = length hs"
  using Network_Inr(2) by (metis length_map)

lemma slot_after_eq:
  "slot_after sd k p =
     (case map_of sd k of None \<Rightarrow> p | Some t \<Rightarrow> if shape t = shape p then t else p)"
  by (simp add: slot_after_def split: option.split)

lemma state_dict_after:
  assumes "(k, p) \<in> set (state_dict m)"
  shows "map_of (state_dict (fst (load_from_state_dict m sd))) k
           = Some (case map_of sd k of None \<Rightarrow> p | Some t \<Rightarrow> if shape t = shape p then t else p)"
proof -
  let ?m' = "fst (load_from_state_dict m sd)"
  from assms have "(k, slot_after sd k p) \<in> set (state_dict ?m')"
    by (force simp: state_dict_load)
  then show ?thesis by (simp add: state_dict_lookup slot_after_eq)
qed

lemma raised_Some: "raised e = Some e' \<Longrightarrow> e' = e"
  by (simp add: raised_def split: if_splits)

lemma shape_mismatch_set:
  "(k, s, s') \<in> set (shape_mismatch stored slots)
     \<longleftrightarrow> (k, s') \<in> set slots \<and> map_of stored k = Some s \<and> s \<noteq> s'"
  by (auto simp: shape_mismatch_def split: option.splits if_splits)

lemma shapes_of_member: "(k, p) \<in> set xs \<Longrightarrow> (k, shape p) \<in> set (shapes_of xs)"
  by (force simp: shapes_of_def)

lemma different_hidden_report:
  assumes ck: "Network i o' hs g0 = Inr m"
    and tg: "Network i' o'' hs' g1 = Inr m'"
  shows "length hs' = length hs \<Longrightarrow> hs' \<noteq> hs
           \<Longrightarrow> size_mismatch (report m' (state_dict m)) \<noteq> []"
    and "length hs < length hs'
           \<Longrightarrow> hidden_prefix (length hs) @ ''weight'' \<in> set (missing_keys (report m' (state_dict m)))"
    and "length hs' < length hs
           \<Longrightarrow> hidden_prefix (length hs') @ ''weight''
                 \<in> set (unexpected_keys (report m' (state_dict m)))"
proof -
  let ?sd = "state_dict m"
  let ?r = "shape_report (shapes_of ?sd) (shapes_of (state_dict m'))"
  have r: "report m' ?sd = ?r" by (rule report_shapes)
  have lm: "length (hidden_layers m) = length hs" using ck by (rule Network_length)
  have lm': "length (hidden_layers m') = length hs'" using tg by (rule Network_length)
  {
    assume len: "length hs' = length hs" and ne: "hs' \<noteq> hs"
    then obtain j where j: "j < length hs" and d: "hs' ! j \<noteq> hs ! j"
      by (metis nth_equalityI)
    let ?k = "hidden_prefix j @ ''weight''"
    let ?t = "weight (hidden_layers m ! j)"
    let ?p = "weight (hidden_layers m' ! j)"
    from j lm have st: "map_of ?sd ?k = Some ?t" by (simp add: state_dict_hidden)
    from j lm' len have "map_of (state_dict m') ?k = Some ?p" by (simp add: state_dict_hidden)
    then have sl: "(?k, ?p) \<in> set (state_dict m')" by (rule map_of_SomeD)
    from Network_hidden(2) [OF ck j] Network_hidden(2) [OF tg, of j] j len d
    have "shape ?t \<noteq> shape ?p" by auto
    moreover from sl have "(?k, shape ?p) \<in> set (shapes_of (state_dict m'))"
      by (rule shapes_of_member)
    moreover from st have "map_of (shapes_of ?sd) ?k = Some (shape ?t)"
      by (simp add: map_of_shapes_of)
    ultimately have "(?k, shape ?t, shape ?p)
        \<in> set (shape_mismatch (shapes_of ?sd) (shapes_of (state_dict m')))"
      by (simp add: shape_mismatch_set)
    then have "size_mismatch ?r \<noteq> []" by (auto simp: shape_report_def)
    with r show "size_mismatch (report m' ?sd) \<noteq> []" by simp
  }
  {
    assume lt: "length hs < length hs'"
    let ?k = "hidden_prefix (length hs) @ ''weight''"
    from lt lm' have "?k \<in> fst ` set (state_dict m')" by (force simp: state_dict_keys)
    moreover from lm have "?k \<notin> fst ` set ?sd" by (auto simp: state_dict_keys)
    then have "map_of (shapes_of ?sd) ?k = None"
      by (simp add: map_of_shapes_of map_of_eq_None_iff)
    ultimately have "?k \<in> set (missing_keys ?r)"
      by (simp add: shape_report_def map_fst_shapes_of)
    with r show "?k \<in> set (missing_keys (report m' ?sd))" by simp
  }
  {
    assume lt: "length hs' < length hs"
    let ?k = "hidden_prefix (length hs') @ ''weight''"
    from lt lm have "?k \<in> fst ` set ?sd" by (force simp: state_dict_keys)
    moreover from lm' have "?k \<notin> fst ` set (state_dict m')" by (auto simp: state_dict_keys)
    ultimately have "?k \<in> set (unexpected_keys ?r)"
      by (simp add: shape_report_def map_fst_shapes_of)
    with r show "?k \<in> set (unexpected_keys (report m' ?sd))" by simp
  }
qed

lemma report_missing_keys:
  "missing_keys (report m sd) = filter (\<lambda>k. k \<notin> set (map fst sd)) (map fst (state_dict m))"
proof -
  have "concat (map (\<lambda>(k, p). slot_missing sd k) xs)
          = filter (\<lambda>k. k \<notin> set (map fst sd)) (map fst xs)" for xs :: "(string \<times> tensor) list"
    by (induction xs) (force simp: slot_missing_def map_of_eq_None_iff)+
  then show ?thesis by (simp add: report_def del: set_map)
qed

lemma report_unexpected_keys:
  "unexpected_keys (report m sd)
     = filter (\<lambda>k. k \<notin> set (map fst (state_dict m))) (map fst sd)"
  by (simp add: report_def)

subsection \<open>The examples and the scenario of the notebook\<close>

lemma unit_model_built: "Network 1 1 [1] (ramp 0) = Inr unit_model"
  by (simp add: Network_def Linear_def init_tensor_def numel_def ramp_def unit_model_def)

lemma wide_model_built: "Network 1 1 [2] (ramp 10) = Inr wide_model"
  by code_simp

lemma narrow_model_built: "Network 2 10 [1] (ramp 0) = Inr narrow_model"
  by code_simp

lemma deep_model_built: "Network 1 1 [1, 1] (ramp 20) = Inr deep_model"
  by code_simp

lemma scenario_model_built: "Network 784 10 [512, 256, 128] (ramp 0) = Inr scenario_model"
proof -
  have "\<exists>m. Network 784 10 [512, 256, 128] (ramp 0) = Inr m"
    by (rule Network_succeeds) simp_all
  then show ?thesis by (auto simp: scenario_model_def)
qed

lemma start_model [simp]: "(start m)\<lparr>nb_model := m\<rparr> = start m" "nb_model (start m) = m"
  by (simp_all add: start_def)

lemma network_shapes_scenario:
  "network_shapes 784 10 [512, 256, 128] =
     [(''hidden_layers.0.weight'', [512, 784]), (''hidden_layers.0.bias'', [512]),
      (''hidden_layers.1.weight'', [256, 512]), (''hidden_layers.1.bias'', [256]),
      (''hidden_layers.2.weight'', [128, 256]), (''hidden_layers.2.bias'', [128]),
      (''output.weight'', [10, 128]), (''output.bias'', [10])]"
  by (simp add: network_shapes_def hidden_prefix_def str.simps digit_def)

lemma network_shapes_rebuilt:
  "network_shapes 784 10 [400, 200, 100] =
     [(''hidden_layers.0.weight'', [400, 784]), (''hidden_layers.0.bias'', [400]),
      (''hidden_layers.1.weight'', [200, 400]), (''hidden_layers.1.bias'', [200]),
      (''hidden_layers.2.weight'', [100, 200]), (''hidden_layers.2.bias'', [100]),
      (''output.weight'', [10, 100]), (''output.bias'', [10])]"
  by (simp add: network_shapes_def hidden_prefix_def str.simps digit_def)

lemma scenario_report:
  "raised (shape_report (network_shapes 784 10 [512, 256, 128]) (network_shapes 784 10 [400, 200, 100]))
     = Some (RuntimeError [] []
         [(''hidden_layers.0.weight'', [512, 784], [400, 784]),
          (''hidden_layers.0.bias'', [512], [400]),
          (''hidden_layers.1.weight'', [256, 512], [200, 400]),
          (''hidden_layers.1.bias'', [256], [200]),
          (''hidden_layers.2.weight'', [128, 256], [100, 200]),
          (''hidden_layers.2.bias'', [128], [100]),
          (''output.weight'', [10, 128], [10, 100])])"
  by (simp add: network_shapes_scenario network_shapes_rebuilt shape_report_def
      shape_mismatch_def raised_def)

lemma cell_8_after_7:
  "cell_8 (cell_7 s) = ((cell_7 s)\<lparr>nb_state_dict := state_dict_obj (state_dict (nb_model s))\<rparr>, None)"
  by (simp add: cell_8_def cell_7_def torch_load_def torch_save_def)

lemma cell_10_error:
  assumes "Network i o' hs g0 = Inr m" and "nb_state_dict s = state_dict_obj (state_dict m)"
  shows "snd (cell_10 g s)
           = raised (shape_report (network_shapes i o' hs) (network_shapes 784 10 [400, 200, 100]))"
proof -
  have "\<exists>m'. Network 784 10 [400, 200, 100] g = Inr m'"
    by (rule Network_succeeds) simp_all
  then obtain m' where m': "Network 784 10 [400, 200, 100] g = Inr m'" by blast
  from load_built [OF assms(1) m'] assms(2) m' show ?thesis
    by (simp add: cell_10_def load_state_dict_obj split_beta)
qed

subsection \<open>Successful and failing loads\<close>

lemma same_shape_linear_state:
  "same_shape l l' \<Longrightarrow> shapes_of (linear_state pre l) = shapes_of (linear_state pre l')"
  by (simp add: same_shape_def linear_state_def)

lemma same_shape_layers_state:
  "list_all2 same_shape ls ls' \<Longrightarrow> shapes_of (layers_state i ls) = shapes_of (layers_state i ls')"
  by (induction ls ls' arbitrary: i rule: list_all2_induct)
    (simp_all add: same_shape_linear_state)

lemma same_topology_shapes:
  "same_topology m m' \<Longrightarrow> shapes_of (state_dict m) = shapes_of (state_dict m')"
  using same_shape_layers_state [of "hidden_layers m" "hidden_layers m'" 0]
    same_shape_linear_state [of "output m" "output m'" "''output.''"]
  by (simp add: same_topology_def state_dict_def)

lemma layer_shapes_member:
  "j < length hs \<Longrightarrow>
     (hidden_prefix (n + j) @ ''weight'', [hs ! j, previous_width p hs j]) \<in> set (layer_shapes n p hs)
     \<and> (hidden_prefix (n + j) @ ''bias'', [hs ! j]) \<in> set (layer_shapes n p hs)"
proof (induction hs arbitrary: n p j)
  case Nil
  then show ?case by simp
next
  case (Cons h hs)
  show ?case
  proof (cases j)
    case 0
    then show ?thesis by (simp add: previous_width_def)
  next
    case (Suc j')
    with Cons.prems have j': "j' < length hs" by simp
    have "previous_width h hs j' = previous_width p (h # hs) (Suc j')"
      by (cases j') (simp_all add: previous_width_def)
    with Cons.IH [OF j', of "Suc n" h] Suc show ?thesis by simp
  qed
qed

lemma network_shapes_member:
  "j < length hs \<Longrightarrow>
     (hidden_prefix j @ ''weight'', [hs ! j, previous_width i hs j]) \<in> set (network_shapes i o' hs)"
  "j < length hs \<Longrightarrow> (hidden_prefix j @ ''bias'', [hs ! j]) \<in> set (network_shapes i o' hs)"
  "(''output.weight'', [o', last hs]) \<in> set (network_shapes i o' hs)"
  "(''output.bias'', [o']) \<in> set (network_shapes i o' hs)"
  using layer_shapes_member [of j hs 0 i] by (simp_all add: network_shapes_def)

lemma concat_map_Nil: "concat (map f xs) = [] \<longleftrightarrow> (\<forall>x\<in>set xs. f x = [])"
  by (induction xs) auto

lemma load_success:
  assumes "load_from_state_dict m0 sd = (m, None)" and "(k, p) \<in> set (state_dict m0)"
  shows "\<exists>t. map_of sd k = Some t \<and> shape t = shape p \<and> map_of (state_dict m) k = Some t"
proof -
  from assms(1) have "snd (load_from_state_dict m0 sd) = None" by simp
  then have e: "missing_keys (report m0 sd) = []" "size_mismatch (report m0 sd) = []"
    by (simp_all add: error_load split: if_splits)
  from e(1) assms(2) have "slot_missing sd k = []"
    by (auto simp: report_def concat_map_Nil)
  then obtain t where t: "map_of sd k = Some t"
    by (auto simp: slot_missing_def split: if_splits)
  from e(2) assms(2) have "slot_mismatch sd k p = []"
    by (auto simp: report_def concat_map_Nil)
  with t have s: "shape t = shape p" by (simp add: slot_mismatch_def split: if_splits)
  from state_dict_after [OF assms(2), of sd] assms(1) t s
  have "map_of (state_dict m) k = Some t" by simp
  with t s show ?thesis by blast
qed

lemma slot_after_shape: "shape (slot_after sd k p) = shape p"
  by (simp add: slot_after_def split: option.split)

lemma load_linear_same_shape: "same_shape (fst (load_linear sd pre l)) l"
  by (simp add: load_linear_eq same_shape_def slot_after_shape)

lemma load_layers_same_shape: "list_all2 same_shape (fst (load_layers sd i ls)) ls"
  by (induction ls arbitrary: i) (simp_all add: split_beta load_linear_same_shape)

lemma load_same_topology_result: "same_topology (fst (load_from_state_dict m sd)) m"
  by (simp add: load_from_state_dict_def split_beta Let_def same_topology_def
      load_layers_same_shape load_linear_same_shape)

lemma mismatch_set:
  "set (size_mismatch (report m sd))
     = {(k, shape t, shape p) | k p t.
          (k, p) \<in> set (state_dict m) \<and> map_of sd k = Some t \<and> shape t \<noteq> shape p}"
proof -
  have "(x \<in> set (slot_mismatch sd k p))
          = (\<exists>t. map_of sd k = Some t \<and> shape t \<noteq> shape p \<and> x = (k, shape t, shape p))"
    for x k p
    by (cases "map_of sd k") (auto simp: slot_mismatch_def)
  then show ?thesis by (fastforce simp: report_def)
qed

lemma load_error:
  "load_from_state_dict m sd = (m', Some e) \<Longrightarrow> e = report m sd"
  using error_load [of m sd] by (simp split: if_splits)

lemma load_mismatch_raises:
  assumes "(k, p) \<in> set (state_dict m)" "map_of sd k = Some t" "shape t \<noteq> shape p"
  shows "snd (load_from_state_dict m sd) = Some (report m sd)"
proof -
  from assms have "(k, shape t, shape p) \<in> set (size_mismatch (report m sd))"
    by (auto simp: mismatch_set)
  then have "size_mismatch (report m sd) \<noteq> []" by auto
  then show ?thesis by (simp add: error_load)
qed

lemma report_RuntimeError:
  "report m sd = RuntimeError (missing_keys (report m sd)) (unexpected_keys (report m sd))
     (size_mismatch (report m sd))"
  by (simp add: report_def)

lemma unit_model_state:
  "state_dict unit_model =
     [(''hidden_layers.0.weight'', \<lparr>shape = [1, 1], data = [0]\<rparr>),
      (''hidden_layers.0.bias'', \<lparr>shape = [1], data = [1]\<rparr>),
      (''output.weight'', \<lparr>shape = [1, 1], data = [2]\<rparr>),
      (''output.bias'', \<lparr>shape = [1], data = [3]\<rparr>)]"
  by (simp add: state_dict_def unit_model_def linear_state_def hidden_prefix_def str.simps digit_def)

lemma wide_model_state:
  "state_dict wide_model =
     [(''hidden_layers.0.weight'', \<lparr>shape = [2, 1], data = [10, 11]\<rparr>),
      (''hidden_layers.0.bias'', \<lparr>shape = [2], data = [12, 13]\<rparr>),
      (''output.weight'', \<lparr>shape = [1, 2], data = [14, 15]\<rparr>),
      (''output.bias'', \<lparr>shape = [1], data = [16]\<rparr>)]"
  by (simp add: state_dict_def wide_model_def linear_state_def hidden_prefix_def str.simps digit_def)

subsection \<open>The recorded run of the notebook\<close>

text \<open>
  Cell 9 loads the state dict of the model into the model itself: all keys match and the
  model is unchanged.
\<close>

lemma cell_9_matches:
  "cell_9 (fst (cell_8 (cell_7 s))) = (fst (cell_8 (cell_7 s)), None)"
proof -
  have "load_from_state_dict (nb_model s) (state_dict (nb_model s)) = (nb_model s, None)"
    using same_topology_refl [of "nb_model s"] by (simp add: same_topology_def load_same_topology)
  moreover have "nb_model (cell_7 s) = nb_model s" by (simp add: cell_7_def)
  ultimately show ?thesis
    by (simp add: cell_9_def cell_8_after_7 load_state_dict_obj)
qed

text \<open>
  Cell 10 fails and leaves the rebuilt network in \<open>model\<close>; cell 11 saves that network, and
  cell 13 loads it back: the model printed at the end has the hidden widths
  \<open>[400, 200, 100]\<close>, as in the notebook.
\<close>

lemma recorded_run:
  assumes "nb_state_dict s = state_dict_obj sd"
  shows "\<exists>s13. cell_13 g' (cell_11 (fst (cell_10 g s))) = (s13, None)
     \<and> nb_model s13 = nb_model (fst (cell_10 g s))
     \<and> map out_features (hidden_layers (nb_model s13)) = [400, 200, 100]"
proof -
  have "\<exists>m'. Network 784 10 [400, 200, 100] g = Inr m'"
    by (rule Network_succeeds) simp_all
  then obtain m' where m': "Network 784 10 [400, 200, 100] g = Inr m'" by blast
  let ?m = "fst (load_from_state_dict m' sd)"
  from m' assms have m: "nb_model (fst (cell_10 g s)) = ?m"
    by (simp add: cell_10_def load_state_dict_obj split_beta)
  have t: "same_topology ?m m'" by (rule load_same_topology_result)
  from load_written [OF m' t]
  have "load_checkpoint ''checkpoint.pth'' (nb_files (cell_11 (fst (cell_10 g s)))) g' = Inr ?m"
    by (simp add: cell_11_files m)
  then have "cell_13 g' (cell_11 (fst (cell_10 g s)))
      = ((cell_11 (fst (cell_10 g s)))\<lparr>nb_model := ?m\<rparr>, None)"
    by (simp add: cell_13_def)
  moreover from same_topology_out_features [OF t] Network_Inr(2) [OF m']
  have "map out_features (hidden_layers ?m) = [400, 200, 100]" by simp
  ultimately show ?thesis using m by simp
qed

section \<open>Properties of saving and loading\<close>

text \<open>
  C1. Round trip. The checkpoint writer records the input size 784 and the output size 10
  as constants, so the round trip holds for the networks of the notebook, built as
  \<open>Network(784, 10, hidden)\<close> for any list of hidden widths the constructor accepts, after
  any change of their parameter values (\<open>same_topology\<close>: the values are arbitrary, the
  shapes are the constructor's): loading the file the writer produced returns exactly the
  model that was saved, with the same widths and the same bits in every tensor.
\<close>

theorem save_load_round_trip:
  assumes "Network 784 10 hidden g0 = Inr m0" and "same_topology model m0"
  shows "load_checkpoint ''checkpoint.pth'' (nb_files (cell_11 (s\<lparr>nb_model := model\<rparr>))) g
           = Inr model"
  using load_written [OF assms] by (simp add: cell_11_files)

theorem save_load_round_trip_witness:
  "load_checkpoint ''checkpoint.pth'' (nb_files (cell_11 (start scenario_model))) (ramp 1)
     = Inr scenario_model"
  using save_load_round_trip [OF scenario_model_built same_topology_refl, of "start scenario_model" "ramp 1"]
  by simp

text \<open>
  For another input or output size the round trip fails: a network with one input, one
  hidden unit and one output is saved with the recorded sizes 784 and 10, and the loader
  rejects the checkpoint written from it.
\<close>

theorem save_load_round_trip_counterexample:
  "Network 1 1 [1] (ramp 0) = Inr unit_model
   \<and> load_checkpoint ''checkpoint.pth'' (nb_files (cell_11 (start unit_model))) (ramp 0)
       = Inl (RuntimeError [] []
           [(''hidden_layers.0.weight'', [1, 1], [1, 784]),
            (''output.weight'', [1, 1], [10, 1]),
            (''output.bias'', [1], [10])])"
proof -
  have "raised (shape_report (network_shapes 1 1 [1]) (network_shapes 784 10 [1]))
          = Some (RuntimeError [] []
           [(''hidden_layers.0.weight'', [1, 1], [1, 784]),
            (''output.weight'', [1, 1], [10, 1]),
            (''output.bias'', [1], [10])])"
    by (simp add: network_shapes_def hidden_prefix_def str.simps digit_def shape_report_def
        shape_mismatch_def raised_def)
  from load_checkpoint_of_built [OF unit_model_built this] unit_model_built
  show ?thesis by (simp add: cell_11_files)
qed

text \<open>
  C2. Loading parameters into a network built with other hidden widths. Let the
  parameters come from a network built with the hidden widths \<open>hs\<close> and the target be
  built with \<open>hs' \<noteq> hs\<close>. Then \<open>load_state_dict\<close> raises its \<open>RuntimeError\<close>. The report
  lists as missing the identifiers of the target that the state dict lacks, as unexpected
  the identifiers of the state dict that the target lacks, and as size mismatches exactly
  the slots whose stored shape differs. When the two lists have the same length there is
  at least one size mismatch; when the target has more hidden layers the weight of its
  first extra layer is missing, and when it has fewer the weight of the first extra stored
  layer is unexpected. The target is not left untouched: after the failed call every slot
  whose key is in the state dict with the slot's shape holds the stored tensor; the slots
  whose key is absent or whose stored shape differs keep their tensor.
\<close>

theorem different_hidden_layers_rejected:
  assumes "Network i o1 hs g0 = Inr m" and "Network i' o2 hs' g1 = Inr m'" and "hs' \<noteq> hs"
  shows "\<exists>m'' ms us es.
     load_state_dict m' (state_dict_obj (state_dict m)) = (m'', Some (RuntimeError ms us es))
     \<and> ms = filter (\<lambda>k. k \<notin> set (map fst (state_dict m))) (map fst (state_dict m'))
     \<and> us = filter (\<lambda>k. k \<notin> set (map fst (state_dict m'))) (map fst (state_dict m))
     \<and> set es = {(k, shape t, shape p) | k p t.
           (k, p) \<in> set (state_dict m') \<and> map_of (state_dict m) k = Some t \<and> shape t \<noteq> shape p}
     \<and> (length hs' = length hs \<longrightarrow> es \<noteq> [])
     \<and> (length hs < length hs' \<longrightarrow> hidden_prefix (length hs) @ ''weight'' \<in> set ms)
     \<and> (length hs' < length hs \<longrightarrow> hidden_prefix (length hs') @ ''weight'' \<in> set us)
     \<and> (\<forall>(k, p)\<in>set (state_dict m').
           map_of (state_dict m'') k
             = Some (case map_of (state_dict m) k of
                       None \<Rightarrow> p
                     | Some t \<Rightarrow> if shape t = shape p then t else p))"
proof -
  let ?sd = "state_dict m"
  let ?e = "report m' ?sd"
  obtain m'' r where l: "load_from_state_dict m' ?sd = (m'', r)"
    by (cases "load_from_state_dict m' ?sd") blast
  note d = different_hidden_report [OF assms(1,2)]
  have 5: "length hs' = length hs \<longrightarrow> size_mismatch ?e \<noteq> []"
    using d(1) assms(3) by blast
  have 6: "length hs < length hs' \<longrightarrow> hidden_prefix (length hs) @ ''weight'' \<in> set (missing_keys ?e)"
    using d(2) by blast
  have 7: "length hs' < length hs
             \<longrightarrow> hidden_prefix (length hs') @ ''weight'' \<in> set (unexpected_keys ?e)"
    using d(3) by blast
  have "length hs' = length hs \<or> length hs < length hs' \<or> length hs' < length hs"
    by arith
  with 5 6 7 have "missing_keys ?e \<noteq> [] \<or> unexpected_keys ?e \<noteq> [] \<or> size_mismatch ?e \<noteq> []"
    by auto
  with l have r: "r = Some ?e" using error_load [of m' ?sd] by auto
  have 8: "\<forall>(k, p)\<in>set (state_dict m').
           map_of (state_dict m'') k
             = Some (case map_of ?sd k of
                       None \<Rightarrow> p
                     | Some t \<Rightarrow> if shape t = shape p then t else p)"
    using state_dict_after [of _ _ m' ?sd] l by auto
  from l r have 1: "load_state_dict m' (state_dict_obj ?sd)
      = (m'', Some (RuntimeError (missing_keys ?e) (unexpected_keys ?e) (size_mismatch ?e)))"
    using report_RuntimeError [of m' ?sd] by (simp add: load_state_dict_obj)
  have 2: "missing_keys ?e = filter (\<lambda>k. k \<notin> set (map fst ?sd)) (map fst (state_dict m'))"
    by (rule report_missing_keys)
  have 3: "unexpected_keys ?e = filter (\<lambda>k. k \<notin> set (map fst (state_dict m'))) (map fst ?sd)"
    by (rule report_unexpected_keys)
  have 4: "set (size_mismatch ?e) = {(k, shape t, shape p) | k p t.
           (k, p) \<in> set (state_dict m') \<and> map_of ?sd k = Some t \<and> shape t \<noteq> shape p}"
    by (rule mismatch_set)
  from 1 2 3 4 5 6 7 8 show ?thesis by blast
qed

theorem different_hidden_layers_rejected_witness:
  "Network 1 1 [1] (ramp 0) = Inr unit_model \<and> Network 1 1 [2] (ramp 10) = Inr wide_model
   \<and> Network 1 1 [1, 1] (ramp 20) = Inr deep_model
   \<and> (\<exists>m'' ms us es.
        load_state_dict wide_model (state_dict_obj (state_dict unit_model))
          = (m'', Some (RuntimeError ms us es))
        \<and> es \<noteq> [])
   \<and> (\<exists>m'' ms us es.
        load_state_dict deep_model (state_dict_obj (state_dict unit_model))
          = (m'', Some (RuntimeError ms us es))
        \<and> hidden_prefix 1 @ ''weight'' \<in> set ms)
   \<and> (\<exists>m'' ms us es.
        load_state_dict unit_model (state_dict_obj (state_dict deep_model))
          = (m'', Some (RuntimeError ms us es))
        \<and> hidden_prefix 1 @ ''weight'' \<in> set us)"
proof -
  have a: "[2::int] \<noteq> [1]" and b: "[1, 1::int] \<noteq> [1]" and c: "[1::int] \<noteq> [1, 1]"
    by simp_all
  from different_hidden_layers_rejected [OF unit_model_built wide_model_built a]
  have 1: "\<exists>m'' ms us es.
        load_state_dict wide_model (state_dict_obj (state_dict unit_model))
          = (m'', Some (RuntimeError ms us es))
        \<and> es \<noteq> []"
    by fastforce
  from different_hidden_layers_rejected [OF unit_model_built deep_model_built b]
  have 2: "\<exists>m'' ms us es.
        load_state_dict deep_model (state_dict_obj (state_dict unit_model))
          = (m'', Some (RuntimeError ms us es))
        \<and> hidden_prefix 1 @ ''weight'' \<in> set ms"
    by fastforce
  from different_hidden_layers_rejected [OF deep_model_built unit_model_built c]
  have 3: "\<exists>m'' ms us es.
        load_state_dict unit_model (state_dict_obj (state_dict deep_model))
          = (m'', Some (RuntimeError ms us es))
        \<and> hidden_prefix 1 @ ''weight'' \<in> set us"
    by fastforce
  from 1 2 3 unit_model_built wide_model_built deep_model_built show ?thesis by blast
qed

text \<open>
  Two things fail in the sentence as the spec has it. The target is partially
  overwritten: the bias of the output layer has the shape \<open>[1]\<close> in the networks built
  with \<open>[1]\<close> and with \<open>[2]\<close>, and after the failed load it holds the stored value 3 instead
  of 16. And the failure need not be a shape mismatch: loading the parameters of the
  network built with \<open>[1]\<close> into the one built with \<open>[1, 1]\<close> finds every stored tensor in
  a slot of its shape, overwrites the first hidden layer and the output layer, and raises
  for the two missing keys of the second hidden layer, with no size mismatch at all.
\<close>

theorem different_hidden_layers_rejected_counterexample:
  "Network 1 1 [1] (ramp 0) = Inr unit_model \<and> Network 1 1 [2] (ramp 10) = Inr wide_model
   \<and> Network 1 1 [1, 1] (ramp 20) = Inr deep_model
   \<and> load_state_dict wide_model (state_dict_obj (state_dict unit_model))
       = (wide_model\<lparr>output := (output wide_model)\<lparr>bias := \<lparr>shape = [1], data = [3]\<rparr>\<rparr>\<rparr>,
          Some (RuntimeError [] []
            [(''hidden_layers.0.weight'', [1, 1], [2, 1]),
             (''hidden_layers.0.bias'', [1], [2]),
             (''output.weight'', [1, 1], [1, 2])]))
   \<and> bias (output wide_model) = \<lparr>shape = [1], data = [16]\<rparr>
   \<and> load_state_dict deep_model (state_dict_obj (state_dict unit_model))
       = (\<lparr>hidden_layers =
             [\<lparr>in_features = 1, out_features = 1,
               weight = \<lparr>shape = [1, 1], data = [0]\<rparr>, bias = \<lparr>shape = [1], data = [1]\<rparr>\<rparr>,
              \<lparr>in_features = 1, out_features = 1,
               weight = \<lparr>shape = [1, 1], data = [22]\<rparr>, bias = \<lparr>shape = [1], data = [23]\<rparr>\<rparr>],
           output =
             \<lparr>in_features = 1, out_features = 1,
              weight = \<lparr>shape = [1, 1], data = [2]\<rparr>, bias = \<lparr>shape = [1], data = [3]\<rparr>\<rparr>\<rparr>,
          Some (RuntimeError [''hidden_layers.1.weight'', ''hidden_layers.1.bias''] [] []))"
proof -
  have "load_state_dict wide_model (state_dict_obj (state_dict unit_model))
       = (wide_model\<lparr>output := (output wide_model)\<lparr>bias := \<lparr>shape = [1], data = [3]\<rparr>\<rparr>\<rparr>,
          Some (RuntimeError [] []
            [(''hidden_layers.0.weight'', [1, 1], [2, 1]),
             (''hidden_layers.0.bias'', [1], [2]),
             (''output.weight'', [1, 1], [1, 2])]))"
    by code_simp
  moreover have "bias (output wide_model) = \<lparr>shape = [1], data = [16]\<rparr>"
    by (simp add: wide_model_def)
  moreover have "load_state_dict deep_model (state_dict_obj (state_dict unit_model))
       = (\<lparr>hidden_layers =
             [\<lparr>in_features = 1, out_features = 1,
               weight = \<lparr>shape = [1, 1], data = [0]\<rparr>, bias = \<lparr>shape = [1], data = [1]\<rparr>\<rparr>,
              \<lparr>in_features = 1, out_features = 1,
               weight = \<lparr>shape = [1, 1], data = [22]\<rparr>, bias = \<lparr>shape = [1], data = [23]\<rparr>\<rparr>],
           output =
             \<lparr>in_features = 1, out_features = 1,
              weight = \<lparr>shape = [1, 1], data = [2]\<rparr>, bias = \<lparr>shape = [1], data = [3]\<rparr>\<rparr>\<rparr>,
          Some (RuntimeError [''hidden_layers.1.weight'', ''hidden_layers.1.bias''] [] []))"
    by code_simp
  ultimately show ?thesis using unit_model_built wide_model_built deep_model_built by simp
qed

text \<open>
  C3. The steps of the loader, on a record that has the four fields. (1) The model is
  built from the three shape fields alone, with fresh random parameter values, and the
  result of the loader is the result of loading the stored state dict into that model.
  (2) When the loader succeeds, every parameter slot of the returned model holds the
  tensor stored under the slot's identifier, and the widths and shapes are those of the
  freshly built model. (3) When a stored tensor's shape differs from the shape of the
  slot with its identifier, the loader fails with the \<open>RuntimeError\<close>, whose list of size
  mismatches is not empty.
\<close>

theorem loader_steps:
  assumes "fs path = Some (PDict kvs)"
    and "map_of kvs ''input_size'' = Some (PInt input_size)"
    and "map_of kvs ''output_size'' = Some (PInt output_size)"
    and "map_of kvs ''hidden_layers'' = Some (PList hidden)"
    and "map_of kvs ''state_dict'' = Some (state_dict_obj sd)"
    and "Network input_size output_size hidden g = Inr fresh"
  shows "load_checkpoint path fs g
           = (case load_from_state_dict fresh sd of (m, None) \<Rightarrow> Inr m | (m, Some e) \<Rightarrow> Inl e)
     \<and> (\<forall>m. load_checkpoint path fs g = Inr m \<longrightarrow>
           same_topology m fresh
           \<and> (\<forall>(k, p)\<in>set (state_dict fresh).
                 map_of sd k \<noteq> None \<and> map_of (state_dict m) k = map_of sd k))
     \<and> ((\<exists>(k, p)\<in>set (state_dict fresh). \<exists>t. map_of sd k = Some t \<and> shape t \<noteq> shape p) \<longrightarrow>
           (\<exists>ms us es. load_checkpoint path fs g = Inl (RuntimeError ms us es) \<and> es \<noteq> []))"
proof -
  have 1: "load_checkpoint path fs g
           = (case load_from_state_dict fresh sd of (m, None) \<Rightarrow> Inr m | (m, Some e) \<Rightarrow> Inl e)"
    using assms(6)
    by (simp add: load_checkpoint_fields [where fs = fs and path = path, OF assms(1-5)]
        Network_call_def load_state_dict_obj)
  have 2: "same_topology m fresh
           \<and> (\<forall>(k, p)\<in>set (state_dict fresh).
                 map_of sd k \<noteq> None \<and> map_of (state_dict m) k = map_of sd k)"
    if "load_checkpoint path fs g = Inr m" for m
  proof -
    from that 1 have l: "load_from_state_dict fresh sd = (m, None)"
      by (auto split: prod.splits option.splits)
    from load_same_topology_result [of fresh sd] l have "same_topology m fresh" by simp
    moreover from load_success [OF l]
    have "\<forall>(k, p)\<in>set (state_dict fresh).
            map_of sd k \<noteq> None \<and> map_of (state_dict m) k = map_of sd k"
      by fastforce
    ultimately show ?thesis by blast
  qed
  have 3: "\<exists>ms us es. load_checkpoint path fs g = Inl (RuntimeError ms us es) \<and> es \<noteq> []"
    if "\<exists>(k, p)\<in>set (state_dict fresh). \<exists>t. map_of sd k = Some t \<and> shape t \<noteq> shape p"
  proof -
    from that obtain k p t where s: "(k, p) \<in> set (state_dict fresh)" "map_of sd k = Some t"
      "shape t \<noteq> shape p"
      by auto
    obtain m r where l: "load_from_state_dict fresh sd = (m, r)"
      by (cases "load_from_state_dict fresh sd") blast
    from load_mismatch_raises [OF s] l have r: "r = Some (report fresh sd)" by simp
    from s have "(k, shape t, shape p) \<in> set (size_mismatch (report fresh sd))"
      by (auto simp: mismatch_set)
    then have "size_mismatch (report fresh sd) \<noteq> []" by auto
    with 1 l r report_RuntimeError [of fresh sd] show ?thesis by (metis case_prod_conv option.simps(5))
  qed
  from 1 2 3 show ?thesis by blast
qed

theorem loader_steps_witness:
  "torch_save tiny_checkpoint ''f'' no_files ''f'' = Some tiny_checkpoint
   \<and> Network 1 1 [1] (ramp 0) = Inr unit_model
   \<and> load_checkpoint ''f'' (torch_save tiny_checkpoint ''f'' no_files) (ramp 0)
       = (case load_from_state_dict unit_model tiny_state of
            (m, None) \<Rightarrow> Inr m
          | (m, Some e) \<Rightarrow> Inl e)
   \<and> load_checkpoint ''f'' (torch_save tiny_checkpoint ''f'' no_files) (ramp 0) = Inr tiny_model"
proof -
  have f: "torch_save tiny_checkpoint ''f'' no_files ''f''
             = Some (PDict [(''input_size'', PInt 1), (''output_size'', PInt 1),
                 (''hidden_layers'', PList [1]), (''state_dict'', state_dict_obj tiny_state)])"
    by (simp add: torch_save_def tiny_checkpoint_def)
  have l: "load_checkpoint ''f'' (torch_save tiny_checkpoint ''f'' no_files) (ramp 0) = Inr tiny_model"
    by code_simp
  let ?kvs = "[(''input_size'', PInt 1), (''output_size'', PInt 1),
                 (''hidden_layers'', PList [1]), (''state_dict'', state_dict_obj tiny_state)]"
  have a: "map_of ?kvs ''input_size'' = Some (PInt 1)"
    and b: "map_of ?kvs ''output_size'' = Some (PInt 1)"
    and c: "map_of ?kvs ''hidden_layers'' = Some (PList [1])"
    and d: "map_of ?kvs ''state_dict'' = Some (state_dict_obj tiny_state)"
    by simp_all
  from loader_steps [where fs = "torch_save tiny_checkpoint ''f'' no_files" and path = "''f''",
      OF f a b c d unit_model_built]
  have "load_checkpoint ''f'' (torch_save tiny_checkpoint ''f'' no_files) (ramp 0)
       = (case load_from_state_dict unit_model tiny_state of
            (m, None) \<Rightarrow> Inr m
          | (m, Some e) \<Rightarrow> Inl e)"
    by simp
  with f l unit_model_built show ?thesis by (simp add: tiny_checkpoint_def)
qed

text \<open>
  C4. A shape mismatch is never absorbed. When some stored tensor's shape differs from
  the shape of the slot with its identifier in the freshly built model, the loader
  returns no model: it ends with the \<open>RuntimeError\<close> of \<open>load_state_dict\<close>, and the size
  mismatches of the report are exactly the mismatched slots, each with its identifier,
  the shape found in the checkpoint and the shape of the slot in the model.
\<close>

theorem shape_mismatch_reported:
  assumes "fs path = Some (PDict kvs)"
    and "map_of kvs ''input_size'' = Some (PInt input_size)"
    and "map_of kvs ''output_size'' = Some (PInt output_size)"
    and "map_of kvs ''hidden_layers'' = Some (PList hidden)"
    and "map_of kvs ''state_dict'' = Some (state_dict_obj sd)"
    and "Network input_size output_size hidden g = Inr fresh"
    and "(k, p) \<in> set (state_dict fresh)" and "map_of sd k = Some t" and "shape t \<noteq> shape p"
  shows "\<exists>ms us es.
     load_checkpoint path fs g = Inl (RuntimeError ms us es)
     \<and> (k, shape t, shape p) \<in> set es
     \<and> set es = {(k', shape t', shape p') | k' p' t'.
           (k', p') \<in> set (state_dict fresh) \<and> map_of sd k' = Some t' \<and> shape t' \<noteq> shape p'}"
proof -
  obtain m r where l: "load_from_state_dict fresh sd = (m, r)"
    by (cases "load_from_state_dict fresh sd") blast
  from load_mismatch_raises [OF assms(7-9)] l have r: "r = Some (report fresh sd)" by simp
  from assms(6) l r have "load_checkpoint path fs g = Inl (report fresh sd)"
    by (simp add: load_checkpoint_fields [where fs = fs and path = path, OF assms(1-5)]
        Network_call_def load_state_dict_obj)
  then have "load_checkpoint path fs g
      = Inl (RuntimeError (missing_keys (report fresh sd)) (unexpected_keys (report fresh sd))
          (size_mismatch (report fresh sd)))"
    using report_RuntimeError [of fresh sd] by simp
  moreover from assms(7-9) have "(k, shape t, shape p) \<in> set (size_mismatch (report fresh sd))"
    by (auto simp: mismatch_set)
  ultimately show ?thesis using mismatch_set [of fresh sd] by blast
qed

theorem shape_mismatch_reported_witness:
  "Network 1 1 [2] (ramp 10) = Inr wide_model
   \<and> (\<exists>ms us es.
        load_checkpoint ''f'' (torch_save drifted_checkpoint ''f'' no_files) (ramp 10)
          = Inl (RuntimeError ms us es)
        \<and> (''hidden_layers.0.weight'', [1, 1], [2, 1]) \<in> set es)"
proof -
  let ?kvs = "[(''input_size'', PInt 1), (''output_size'', PInt 1),
                 (''hidden_layers'', PList [2]),
                 (''state_dict'', state_dict_obj (state_dict unit_model))]"
  have f: "torch_save drifted_checkpoint ''f'' no_files ''f'' = Some (PDict ?kvs)"
    by (simp add: torch_save_def drifted_checkpoint_def)
  have a: "map_of ?kvs ''input_size'' = Some (PInt 1)"
    and b: "map_of ?kvs ''output_size'' = Some (PInt 1)"
    and c: "map_of ?kvs ''hidden_layers'' = Some (PList [2])"
    and d: "map_of ?kvs ''state_dict'' = Some (state_dict_obj (state_dict unit_model))"
    by simp_all
  have k: "(''hidden_layers.0.weight'', \<lparr>shape = [2, 1], data = [10, 11]\<rparr>)
             \<in> set (state_dict wide_model)"
    by (simp add: wide_model_state)
  have t: "map_of (state_dict unit_model) ''hidden_layers.0.weight''
             = Some \<lparr>shape = [1, 1], data = [0]\<rparr>"
    by (simp add: unit_model_state)
  have s: "shape \<lparr>shape = [1, 1], data = [0::float32]\<rparr>
             \<noteq> shape \<lparr>shape = [2, 1], data = [10, 11::float32]\<rparr>"
    by simp
  from shape_mismatch_reported [where fs = "torch_save drifted_checkpoint ''f'' no_files"
      and path = "''f''", OF f a b c d wide_model_built k t s] wide_model_built
  show ?thesis by auto
qed

text \<open>
  C5. The scenario of the notebook: the state dict of the network with the hidden widths
  \<open>[512, 256, 128]\<close> is saved (cell 7), read back (cell 8) and loaded into a network built
  with \<open>[400, 200, 100]\<close> (cell 10). The load fails, and the report lists seven size
  mismatches, the ones of the recorded \<open>RuntimeError\<close>: the weight and the bias of each of
  the three hidden layers, and the weight of the output layer, whose input width changed
  from 128 to 100. Only \<open>output.bias\<close> has the same shape in both networks.
\<close>

theorem scenario_reports_seven_mismatches:
  "\<exists>m. Network 784 10 [512, 256, 128] g0 = Inr m
     \<and> snd (cell_10 g (fst (cell_8 (cell_7 (s\<lparr>nb_model := m\<rparr>)))))
         = Some (RuntimeError [] []
             [(''hidden_layers.0.weight'', [512, 784], [400, 784]),
              (''hidden_layers.0.bias'', [512], [400]),
              (''hidden_layers.1.weight'', [256, 512], [200, 400]),
              (''hidden_layers.1.bias'', [256], [200]),
              (''hidden_layers.2.weight'', [128, 256], [100, 200]),
              (''hidden_layers.2.bias'', [128], [100]),
              (''output.weight'', [10, 128], [10, 100])])"
proof -
  have "\<exists>m. Network 784 10 [512, 256, 128] g0 = Inr m"
    by (rule Network_succeeds) simp_all
  then obtain m where m: "Network 784 10 [512, 256, 128] g0 = Inr m" by blast
  have "nb_state_dict (fst (cell_8 (cell_7 (s\<lparr>nb_model := m\<rparr>)))) = state_dict_obj (state_dict m)"
    by (simp add: cell_8_after_7)
  from cell_10_error [OF m this] scenario_report m show ?thesis by auto
qed

text \<open>The report does not have six entries: it has seven, four of them weights.\<close>

theorem scenario_reports_seven_mismatches_counterexample:
  "map fst (size_mismatch (the (snd (cell_10 (ramp 1) (fst (cell_8 (cell_7 (start scenario_model))))))))
     = [''hidden_layers.0.weight'', ''hidden_layers.0.bias'',
        ''hidden_layers.1.weight'', ''hidden_layers.1.bias'',
        ''hidden_layers.2.weight'', ''hidden_layers.2.bias'', ''output.weight'']
   \<and> length (size_mismatch (the (snd (cell_10 (ramp 1) (fst (cell_8 (cell_7 (start scenario_model)))))))) \<noteq> 6"
proof -
  have "nb_state_dict (fst (cell_8 (cell_7 (start scenario_model))))
          = state_dict_obj (state_dict scenario_model)"
    by (simp add: cell_8_after_7)
  from cell_10_error [OF scenario_model_built this] scenario_report
  have "snd (cell_10 (ramp 1) (fst (cell_8 (cell_7 (start scenario_model)))))
          = Some (RuntimeError [] []
             [(''hidden_layers.0.weight'', [512, 784], [400, 784]),
              (''hidden_layers.0.bias'', [512], [400]),
              (''hidden_layers.1.weight'', [256, 512], [200, 400]),
              (''hidden_layers.1.bias'', [256], [200]),
              (''hidden_layers.2.weight'', [128, 256], [100, 200]),
              (''hidden_layers.2.bias'', [128], [100]),
              (''output.weight'', [10, 128], [10, 100])])"
    by simp
  then show ?thesis by simp
qed

text \<open>
  C6. The shapes in a record the loader accepts are consistent with its three shape
  fields. Hidden layer \<open>j\<close> has a weight of shape \<open>[hidden_layers[j], previous_width]\<close>,
  where the previous width is \<open>input_size\<close> for \<open>j = 0\<close> and \<open>hidden_layers[j - 1]\<close> for a
  later layer, and a bias of shape \<open>[hidden_layers[j]]\<close>; the output layer, after the last
  hidden layer, has a weight of shape \<open>[output_size, last hidden width]\<close> and a bias of
  shape \<open>[output_size]\<close>.
\<close>

theorem accepted_checkpoint_shapes:
  assumes "load_checkpoint path fs g = Inr m"
  shows "\<exists>kvs input_size output_size hidden sd.
     fs path = Some (PDict kvs)
     \<and> map_of kvs ''input_size'' = Some (PInt input_size)
     \<and> map_of kvs ''output_size'' = Some (PInt output_size)
     \<and> map_of kvs ''hidden_layers'' = Some (PList hidden)
     \<and> map_of kvs ''state_dict'' = Some (state_dict_obj sd)
     \<and> (\<forall>j<length hidden.
           map_option shape (map_of sd (hidden_prefix j @ ''weight''))
             = Some [hidden ! j, previous_width input_size hidden j]
           \<and> map_option shape (map_of sd (hidden_prefix j @ ''bias'')) = Some [hidden ! j])
     \<and> map_option shape (map_of sd ''output.weight'') = Some [output_size, last hidden]
     \<and> map_option shape (map_of sd ''output.bias'') = Some [output_size]"
proof -
  from load_checkpoint_Inr [OF assms] obtain kvs a b c d m0
    where f: "fs path = Some (PDict kvs)"
      "map_of kvs ''input_size'' = Some (PInt a)"
      "map_of kvs ''output_size'' = Some (PInt b)"
      "map_of kvs ''hidden_layers'' = Some (PList c)"
      "map_of kvs ''state_dict'' = Some (state_dict_obj d)"
      and n: "Network a b c g = Inr m0"
      and l: "load_from_state_dict m0 d = (m, None)"
    by blast
  have stored: "map_option shape (map_of d k) = Some s" if "(k, s) \<in> set (network_shapes a b c)"
    for k s
  proof -
    from that Network_Inr(1) [OF n] have "(k, s) \<in> set (shapes_of (state_dict m0))" by simp
    then obtain p where p: "(k, p) \<in> set (state_dict m0)" and s: "s = shape p"
      by (auto simp: shapes_of_def)
    from load_success [OF l p] s show ?thesis by auto
  qed
  have "\<forall>j<length c.
           map_option shape (map_of d (hidden_prefix j @ ''weight''))
             = Some [c ! j, previous_width a c j]
           \<and> map_option shape (map_of d (hidden_prefix j @ ''bias'')) = Some [c ! j]"
  proof (intro allI impI conjI)
    fix j
    assume j: "j < length c"
    show "map_option shape (map_of d (hidden_prefix j @ ''weight''))
            = Some [c ! j, previous_width a c j]"
      using network_shapes_member(1) [OF j] by (rule stored)
    show "map_option shape (map_of d (hidden_prefix j @ ''bias'')) = Some [c ! j]"
      using network_shapes_member(2) [OF j] by (rule stored)
  qed
  moreover have "map_option shape (map_of d ''output.weight'') = Some [b, last c]"
    using network_shapes_member(3) by (rule stored)
  moreover have "map_option shape (map_of d ''output.bias'') = Some [b]"
    using network_shapes_member(4) by (rule stored)
  ultimately show ?thesis using f by blast
qed

theorem accepted_checkpoint_shapes_witness:
  "load_checkpoint ''f'' (torch_save tiny_checkpoint ''f'' no_files) (ramp 3) = Inr tiny_model
   \<and> (\<exists>kvs input_size output_size hidden sd.
     torch_save tiny_checkpoint ''f'' no_files ''f'' = Some (PDict kvs)
     \<and> map_of kvs ''input_size'' = Some (PInt input_size)
     \<and> map_of kvs ''output_size'' = Some (PInt output_size)
     \<and> map_of kvs ''hidden_layers'' = Some (PList hidden)
     \<and> map_of kvs ''state_dict'' = Some (state_dict_obj sd)
     \<and> (\<forall>j<length hidden.
           map_option shape (map_of sd (hidden_prefix j @ ''weight''))
             = Some [hidden ! j, previous_width input_size hidden j]
           \<and> map_option shape (map_of sd (hidden_prefix j @ ''bias'')) = Some [hidden ! j])
     \<and> map_option shape (map_of sd ''output.weight'') = Some [output_size, last hidden]
     \<and> map_option shape (map_of sd ''output.bias'') = Some [output_size])"
proof -
  have a: "load_checkpoint ''f'' (torch_save tiny_checkpoint ''f'' no_files) (ramp 3)
             = Inr tiny_model"
    by code_simp
  from accepted_checkpoint_shapes [OF a] a show ?thesis by blast
qed

text \<open>
  The spec's sentence gives the layer after the last hidden layer the previous width
  \<open>output_size\<close>. In the checkpoint written from the network of the notebook, which the
  loader accepts, the weight of that layer has the shape \<open>[10, 128]\<close>: its previous width
  is 128, the width of the last hidden layer, where the spec's words give 10.
\<close>

theorem accepted_checkpoint_shapes_counterexample:
  "load_checkpoint ''checkpoint.pth'' (nb_files (cell_11 (start scenario_model))) (ramp 3)
     = Inr scenario_model
   \<and> map_option shape (map_of (state_dict scenario_model) ''output.weight'') = Some [10, 128]
   \<and> previous_width_spec 784 10 [512, 256, 128] 3 = 10"
proof -
  have "load_checkpoint ''checkpoint.pth'' (nb_files (cell_11 (start scenario_model))) (ramp 3)
     = Inr scenario_model"
    using load_written [OF scenario_model_built same_topology_refl]
    by (simp add: cell_11_files)
  moreover have "map_of (shapes_of (state_dict scenario_model)) ''output.weight'' = Some [10, 128]"
    by (simp add: Network_Inr(1) [OF scenario_model_built] network_shapes_scenario)
  then have "map_option shape (map_of (state_dict scenario_model) ''output.weight'') = Some [10, 128]"
    by (simp add: map_of_shapes_of)
  moreover have "previous_width_spec 784 10 [512, 256, 128] 3 = 10"
    by (simp add: previous_width_spec_def)
  ultimately show ?thesis by simp
qed

text \<open>
  C7. A record the loader accepts is a dictionary that has the four keys \<open>input_size\<close>,
  \<open>output_size\<close>, \<open>hidden_layers\<close> and \<open>state_dict\<close> (the last is the key under which the
  parameters are stored), and the loader reads nothing else: any dictionary with the same
  values under these four keys gives the same result.
\<close>

theorem loader_reads_four_fields:
  assumes "load_checkpoint path fs g = Inr m"
  shows "\<exists>kvs a b c d.
     fs path = Some (PDict kvs)
     \<and> map_of kvs ''input_size'' = Some a
     \<and> map_of kvs ''output_size'' = Some b
     \<and> map_of kvs ''hidden_layers'' = Some c
     \<and> map_of kvs ''state_dict'' = Some d
     \<and> (\<forall>fs' kvs'.
           fs' path = Some (PDict kvs')
           \<and> map_of kvs' ''input_size'' = Some a
           \<and> map_of kvs' ''output_size'' = Some b
           \<and> map_of kvs' ''hidden_layers'' = Some c
           \<and> map_of kvs' ''state_dict'' = Some d
           \<longrightarrow> load_checkpoint path fs' g = Inr m)"
proof -
  from load_checkpoint_Inr [OF assms] obtain kvs a b c d
    where f: "fs path = Some (PDict kvs)"
      "map_of kvs ''input_size'' = Some (PInt a)"
      "map_of kvs ''output_size'' = Some (PInt b)"
      "map_of kvs ''hidden_layers'' = Some (PList c)"
      "map_of kvs ''state_dict'' = Some (state_dict_obj d)"
    by blast
  have "load_checkpoint path fs' g = Inr m"
    if "fs' path = Some (PDict kvs')"
      "map_of kvs' ''input_size'' = Some (PInt a)"
      "map_of kvs' ''output_size'' = Some (PInt b)"
      "map_of kvs' ''hidden_layers'' = Some (PList c)"
      "map_of kvs' ''state_dict'' = Some (state_dict_obj d)"
    for fs' kvs'
    using assms
    by (simp add: load_checkpoint_fields [where fs = fs and path = path, OF f]
        load_checkpoint_fields [where fs = fs' and path = path, OF that])
  with f show ?thesis by blast
qed

theorem loader_reads_four_fields_witness:
  "load_checkpoint ''f'' (torch_save tiny_checkpoint ''f'' no_files) (ramp 5) = Inr tiny_model
   \<and> (\<exists>kvs a b c d.
     torch_save tiny_checkpoint ''f'' no_files ''f'' = Some (PDict kvs)
     \<and> map_of kvs ''input_size'' = Some a
     \<and> map_of kvs ''output_size'' = Some b
     \<and> map_of kvs ''hidden_layers'' = Some c
     \<and> map_of kvs ''state_dict'' = Some d)"
proof -
  have a: "load_checkpoint ''f'' (torch_save tiny_checkpoint ''f'' no_files) (ramp 5)
             = Inr tiny_model"
    by code_simp
  from loader_reads_four_fields [OF a] a show ?thesis by blast
qed

text \<open>
  The fourth field is not called \<open>parameters\<close>: the loader accepts a record that has no
  such key.
\<close>

theorem loader_reads_four_fields_counterexample:
  "load_checkpoint ''f'' (torch_save tiny_checkpoint ''f'' no_files) (ramp 0) = Inr tiny_model
   \<and> getitem tiny_checkpoint ''parameters'' = Inl (KeyError ''parameters'')"
  by code_simp

text \<open>
  C8. Saving leaves the model unchanged: after the cell that builds and writes the
  checkpoint (and after the earlier cell that writes the bare state dict), the variable
  \<open>model\<close> holds the same network, with the same layer widths and the same parameter
  values, as before.
\<close>

theorem save_leaves_model_unchanged:
  "nb_model (cell_11 s) = nb_model s \<and> nb_model (cell_7 s) = nb_model s"
  by (simp add: cell_11_def cell_7_def Let_def)

text \<open>
  C9. What the writer produces is consistent by construction, for the networks of the
  notebook: whichever network \<open>Network(784, 10, hidden)\<close> is current when the checkpoint
  is written (the trained one, or the one rebuilt with other hidden widths), the field
  \<open>hidden_layers\<close> holds the output widths of its hidden layers, which are the widths it
  was built with; the shapes in the stored state dict are the ones a network built from
  the three recorded fields has; and loading the file does not raise.
\<close>

theorem written_checkpoint_consistent:
  assumes "Network 784 10 hidden g0 = Inr m0" and "same_topology model m0"
  shows "getitem (checkpoint_of model) ''hidden_layers''
           = Inr (PList (map out_features (hidden_layers model)))
     \<and> map out_features (hidden_layers model) = hidden
     \<and> getitem (checkpoint_of model) ''state_dict'' = Inr (state_dict_obj (state_dict model))
     \<and> shapes_of (state_dict model) = network_shapes 784 10 hidden
     \<and> (\<exists>m. load_checkpoint ''checkpoint.pth'' (nb_files (cell_11 (s\<lparr>nb_model := model\<rparr>))) g
              = Inr m)"
proof -
  have 1: "getitem (checkpoint_of model) ''hidden_layers''
             = Inr (PList (map out_features (hidden_layers model)))"
    and 3: "getitem (checkpoint_of model) ''state_dict'' = Inr (state_dict_obj (state_dict model))"
    by (simp_all add: getitem_def checkpoint_of_def)
  from same_topology_out_features [OF assms(2)] Network_Inr(2) [OF assms(1)]
  have 2: "map out_features (hidden_layers model) = hidden" by simp
  from same_topology_shapes [OF assms(2)] Network_Inr(1) [OF assms(1)]
  have 4: "shapes_of (state_dict model) = network_shapes 784 10 hidden" by simp
  from load_written [OF assms]
  have 5: "load_checkpoint ''checkpoint.pth'' (nb_files (cell_11 (s\<lparr>nb_model := model\<rparr>))) g
             = Inr model"
    by (simp add: cell_11_files)
  from 1 2 3 4 5 show ?thesis by blast
qed

theorem written_checkpoint_consistent_witness:
  "getitem (checkpoint_of scenario_model) ''hidden_layers'' = Inr (PList [512, 256, 128])
   \<and> shapes_of (state_dict scenario_model) = network_shapes 784 10 [512, 256, 128]
   \<and> (\<exists>m. load_checkpoint ''checkpoint.pth'' (nb_files (cell_11 (start scenario_model))) (ramp 2)
            = Inr m)"
  using written_checkpoint_consistent [OF scenario_model_built same_topology_refl,
      of "start scenario_model" "ramp 2"]
  by simp

text \<open>
  For a network of another input size the writer still records 784, and loading the
  unmodified checkpoint raises the size mismatch.
\<close>

theorem written_checkpoint_consistent_counterexample:
  "Network 2 10 [1] (ramp 0) = Inr narrow_model
   \<and> load_checkpoint ''checkpoint.pth'' (nb_files (cell_11 (start narrow_model))) (ramp 0)
       = Inl (RuntimeError [] [] [(''hidden_layers.0.weight'', [1, 2], [1, 784])])"
proof -
  have "raised (shape_report (network_shapes 2 10 [1]) (network_shapes 784 10 [1]))
          = Some (RuntimeError [] [] [(''hidden_layers.0.weight'', [1, 2], [1, 784])])"
    by (simp add: network_shapes_def hidden_prefix_def str.simps digit_def shape_report_def
        shape_mismatch_def raised_def)
  from load_checkpoint_of_built [OF narrow_model_built this] narrow_model_built
  show ?thesis by (simp add: cell_11_files)
qed

text \<open>
  C10. The result of a successful load depends only on the file: if the loader succeeds
  with one sequence of initial random values, it succeeds with any other and returns the
  same model, because every parameter slot of the freshly built model is overwritten.
\<close>

theorem load_independent_of_initialisation:
  assumes "load_checkpoint path fs g = Inr m"
  shows "load_checkpoint path fs g' = Inr m"
proof -
  from load_checkpoint_Inr [OF assms] obtain kvs a b c d m0
    where f: "fs path = Some (PDict kvs)"
      "map_of kvs ''input_size'' = Some (PInt a)"
      "map_of kvs ''output_size'' = Some (PInt b)"
      "map_of kvs ''hidden_layers'' = Some (PList c)"
      "map_of kvs ''state_dict'' = Some (state_dict_obj d)"
      and n: "Network a b c g = Inr m0"
      and l: "load_from_state_dict m0 d = (m, None)"
    by blast
  from Network_rng [OF n] obtain m0' where n': "Network a b c g' = Inr m0'" by blast
  from n n' have "same_topology m0 m0'" by (rule Network_same_topology)
  then have "load_from_state_dict m0' d = (m, None)"
    using l by (auto simp: same_topology_def intro: load_ok_topology)
  with n' show ?thesis
    by (simp add: load_checkpoint_fields [where fs = fs and path = path, OF f]
        Network_call_def load_state_dict_obj)
qed

theorem load_independent_of_initialisation_witness:
  "load_checkpoint ''f'' (torch_save tiny_checkpoint ''f'' no_files) (ramp 0) = Inr tiny_model
   \<and> load_checkpoint ''f'' (torch_save tiny_checkpoint ''f'' no_files) (ramp 9) = Inr tiny_model"
proof -
  have a: "load_checkpoint ''f'' (torch_save tiny_checkpoint ''f'' no_files) (ramp 0)
             = Inr tiny_model"
    by code_simp
  from load_independent_of_initialisation [OF a] a show ?thesis by simp
qed

end
